theory Spec2Isabelle
  imports Complex_Main
begin

section \<open>The sidebar document\<close>

text \<open>
  The program keeps the browser's sidebar in one JSON file, \<^verbatim>\<open>StorableSidebar.json\<close>.
  The TypeScript interfaces \<^verbatim>\<open>SidebarData\<close>, \<^verbatim>\<open>SpaceObject\<close> and \<^verbatim>\<open>ItemObject\<close> of
  \<^verbatim>\<open>arc.ts\<close> are embedded as records. An optional field \<^verbatim>\<open>f?: T\<close> (or \<^verbatim>\<open>T | null\<close>) is a
  field of type \<open>T option\<close>; the arrays that mix identifier strings with full records
  (\<^verbatim>\<open>Array<string | SpaceObject>\<close>) are lists of slots. Field names carry a short prefix
  where two interfaces use the same name.
\<close>

datatype 'a slot = Str string | Obj 'a

text \<open>An opaque JSON object (the window theme is copied, never inspected).\<close>

type_synonym json_object = string

record iconType =
  emoji :: "string option"
  icon :: "string option"

record customInfo =
  iconType :: "iconType option"
  windowTheme :: "json_object option"

text \<open>The entries of \<^verbatim>\<open>newContainerIDs\<close>: \<^verbatim>\<open>{pinned: {}}\<close>, \<^verbatim>\<open>{unpinned: {_0: {shared: {}}}}\<close> or an id.\<close>

datatype newContainerID = PinnedRole | UnpinnedRole | ContainerRef string

record SpaceObject =
  space_id :: string
  space_title :: string
  profile :: "bool option"
  containerIDs :: "string list option"
  newContainerIDs :: "newContainerID list option"
  customInfo :: "customInfo option"

record tabData =
  savedURL :: "string option"
  savedTitle :: "string option"
  savedMuteStatus :: "string option"
  timeLastActiveAt :: "rat option"

text \<open>
  \<^verbatim>\<open>itemContainer?: {containerType?: {spaceItems?: {_0?: string}}}\<close>: the payload is present
  or not, and when present it may name the owning space.
\<close>

datatype itemContainer = ItemContainer (spaceItems: "string option")

record itemData =
  tab :: "tabData option"
  itemContainer :: "itemContainer option"

record ItemObject =
  item_id :: string
  item_title :: "string option"
  parentID :: "string option"
  childrenIds :: "string list option"
  createdAt :: "rat option"
  originatingDevice :: "string option"
  isUnread :: "bool option"
  item_data :: "itemData option"

text \<open>The local mirror \<^verbatim>\<open>sidebarSyncState\<close>; \<open>l_orderedSpaceIDs\<close> is the optional chain
  \<^verbatim>\<open>container?.value?.orderedSpaceIDs\<close>.\<close>

record localSpaceModel =
  encodedCKRecordFields :: "string option"
  lsm_value :: SpaceObject

record sidebarSyncState =
  l_orderedSpaceIDs :: "string list option"
  l_spaceModels :: "localSpaceModel slot list option"

text \<open>The remote mirror \<^verbatim>\<open>firebaseSyncState.syncData\<close>; its records are stamped with the
  change date and the authoring device.\<close>

record 'a stamped =
  st_id :: string
  lastChangeDate :: rat
  lastChangedDevice :: string
  st_value :: 'a

record orderedSpaceIDs =
  osi_value :: "string list option"
  osi_lastChangeDate :: "rat option"
  osi_lastChangedDevice :: "string option"

record syncData =
  r_orderedSpaceIDs :: "orderedSpaceIDs option"
  r_spaceModels :: "SpaceObject stamped slot list option"
  r_items :: "ItemObject stamped slot list option"

record container =
  spaces :: "SpaceObject slot list option"
  items :: "ItemObject slot list option"

text \<open>\<open>containers\<close> is \<^verbatim>\<open>sidebar.containers\<close>; \<open>firebaseSyncState\<close> is the optional chain
  \<^verbatim>\<open>firebaseSyncState?.syncData\<close>.\<close>

record SidebarData =
  containers :: "container list"
  sidebarSyncState :: "sidebarSyncState option"
  firebaseSyncState :: "syncData option"

subsection \<open>Storage, faults and results\<close>

text \<open>
  A fault is an exception of the runtime: a file that cannot be read, parsed or copied,
  a property access on \<^verbatim>\<open>undefined\<close>, or a recursion deeper than the call stack.
\<close>

datatype fault = StorageFault | TypeError | RangeError

text \<open>
  The failure messages of the mutating operations, by the condition they report:
  \<^verbatim>\<open>"Space not found: ..."\<close>, \<^verbatim>\<open>"Tab not found: ..."\<close>,
  \<^verbatim>\<open>"Could not find theme template from existing spaces"\<close>,
  \<^verbatim>\<open>"Container not found for space: ..."\<close>, and the message of a caught exception.
  \<open>Success x\<close> is \<^verbatim>\<open>{success: true, ...}\<close>, \<open>Failure e\<close> is \<^verbatim>\<open>{success: false, error}\<close>.
\<close>

datatype error =
    SpaceNotFound string
  | TabNotFound string
  | ThemeTemplateMissing
  | ContainerMissing string
  | Caught fault

datatype 'a result = Success 'a | Failure error

text \<open>
  The file system as the operations see it: \<open>sidebarFile\<close> is the parsed content of the sidebar
  file (\<open>None\<close> when the file is missing or does not parse), \<open>backups\<close> the sibling
  backup files, each under the time stamp in its name, \<open>writes\<close> the number of times the
  content of the sidebar file has been replaced or destroyed. Serialising and parsing a
  document are taken to be inverse to each other.
\<close>

record world =
  sidebarFile :: "SidebarData option"
  backups :: "nat \<rightharpoonup> SidebarData"
  writes :: nat

text \<open>
  How a call of \<^verbatim>\<open>writeFileSync\<close> on the sidebar file ends: it completes; or it throws
  before touching the file (the file cannot be opened for writing); or it throws after
  the file has been opened and truncated, which leaves a file that does not parse.
\<close>

datatype writeOutcome = Completes | Refused | Torn

text \<open>
  What one call draws from its environment: the identifiers \<^verbatim>\<open>randomUUID().toUpperCase()\<close>
  returns, the clock at the backup (\<^verbatim>\<open>Date.now()\<close>) and at the stamp
  (\<^verbatim>\<open>Date.now() / 1000\<close>), whether \<^verbatim>\<open>copyFileSync\<close> succeeds, and how \<^verbatim>\<open>writeFileSync\<close>
  ends.
\<close>

record env =
  uuid1 :: string
  uuid2 :: string
  uuid3 :: string
  backupStamp :: nat
  ts :: rat
  copyOk :: bool
  writeOutcome :: writeOutcome

definition loadSidebar :: "world \<Rightarrow> fault + SidebarData" where
  "loadSidebar w = (case sidebarFile w of None \<Rightarrow> Inl StorageFault | Some d \<Rightarrow> Inr d)"

text \<open>The world after a completed write of the document \<open>d\<close>.\<close>

definition written :: "SidebarData \<Rightarrow> world \<Rightarrow> world" where
  "written d w = w\<lparr>sidebarFile := Some d, writes := Suc (writes w)\<rparr>"

text \<open>\<^verbatim>\<open>saveSidebar\<close> returns the fault thrown, if any, and the world it leaves.\<close>

definition saveSidebar :: "SidebarData \<Rightarrow> env \<Rightarrow> world \<Rightarrow> fault option \<times> world" where
  "saveSidebar d e w =
     (case writeOutcome e of
        Completes \<Rightarrow> (None, written d w)
      | Refused \<Rightarrow> (Some StorageFault, w)
      | Torn \<Rightarrow> (Some StorageFault, w\<lparr>sidebarFile := None, writes := Suc (writes w)\<rparr>))"

text \<open>The world after the backup of the document \<open>d\<close>: \<^verbatim>\<open>copyFileSync\<close> creates the file
  named by the stamp, or replaces it if there is one.\<close>

definition backedUp :: "env \<Rightarrow> SidebarData \<Rightarrow> world \<Rightarrow> world" where
  "backedUp e d w = w\<lparr>backups := (backups w)(backupStamp e \<mapsto> d)\<rparr>"

definition createBackup :: "env \<Rightarrow> world \<Rightarrow> fault + world" where
  "createBackup e w =
     (case sidebarFile w of
        None \<Rightarrow> Inl StorageFault
      | Some d \<Rightarrow> if copyOk e then Inr (backedUp e d w) else Inl StorageFault)"

subsection \<open>Reading the primary lists\<close>

text \<open>\<^verbatim>\<open>data.sidebar?.containers?.[1]\<close>: the second entry of the container array, if any.\<close>

definition primary :: "SidebarData \<Rightarrow> container option" where
  "primary d = (if 1 < length (containers d) then Some (containers d ! 1) else None)"

text \<open>\<^verbatim>\<open>data.sidebar?.containers?.[1]?.spaces || []\<close> and the same for \<^verbatim>\<open>items\<close>.\<close>

definition primarySpaces :: "SidebarData \<Rightarrow> SpaceObject slot list" where
  "primarySpaces d =
     (case primary d of
        None \<Rightarrow> []
      | Some c \<Rightarrow> (case spaces c of None \<Rightarrow> [] | Some xs \<Rightarrow> xs))"

definition primaryItems :: "SidebarData \<Rightarrow> ItemObject slot list" where
  "primaryItems d =
     (case primary d of
        None \<Rightarrow> []
      | Some c \<Rightarrow> (case items c of None \<Rightarrow> [] | Some xs \<Rightarrow> xs))"

text \<open>
  The assignments \<^verbatim>\<open>data.sidebar.containers[1].spaces = ...\<close> and
  \<^verbatim>\<open>data.sidebar.containers[1].items = ...\<close> have no optional chaining: they throw a
  \<^verbatim>\<open>TypeError\<close> when the array has no second entry.
\<close>

definition assignSpaces :: "SpaceObject slot list \<Rightarrow> SidebarData \<Rightarrow> fault + SidebarData" where
  "assignSpaces xs d =
     (case primary d of
        None \<Rightarrow> Inl TypeError
      | Some c \<Rightarrow> Inr (d\<lparr>containers := (containers d)[1 := c\<lparr>spaces := Some xs\<rparr>]\<rparr>))"

definition assignItems :: "ItemObject slot list \<Rightarrow> SidebarData \<Rightarrow> fault + SidebarData" where
  "assignItems xs d =
     (case primary d of
        None \<Rightarrow> Inl TypeError
      | Some c \<Rightarrow> Inr (d\<lparr>containers := (containers d)[1 := c\<lparr>items := Some xs\<rparr>]\<rparr>))"

text \<open>A string is truthy when it is not empty; an optional string when it is present and
  not empty.\<close>

definition truthy :: "string option \<Rightarrow> bool" where
  "truthy s = (case s of None \<Rightarrow> False | Some x \<Rightarrow> x \<noteq> [])"

text \<open>\<^verbatim>\<open>a || b\<close> for an optional string \<^verbatim>\<open>a\<close> and a string \<^verbatim>\<open>b\<close>.\<close>

definition orElse :: "string option \<Rightarrow> string \<Rightarrow> string" where
  "orElse a b = (case a of None \<Rightarrow> b | Some x \<Rightarrow> if x \<noteq> [] then x else b)"

fun firstDevice :: "ItemObject slot list \<Rightarrow> string" where
  "firstDevice [] = []"
| "firstDevice (Str s # xs) = firstDevice xs"
| "firstDevice (Obj it # xs) =
     (case originatingDevice it of
        None \<Rightarrow> firstDevice xs
      | Some dv \<Rightarrow> if dv \<noteq> [] then dv else firstDevice xs)"

definition getDeviceId :: "SidebarData \<Rightarrow> string" where
  "getDeviceId d =
     (let deviceId =
        (case firebaseSyncState d of
           None \<Rightarrow> []
         | Some sd \<Rightarrow>
             (case r_orderedSpaceIDs sd of
                None \<Rightarrow> []
              | Some m \<Rightarrow> (case osi_lastChangedDevice m of None \<Rightarrow> [] | Some x \<Rightarrow> x)))
      in if deviceId = [] then firstDevice (primaryItems d) else deviceId)"

subsection \<open>Resolving a space\<close>

text \<open>
  \<^verbatim>\<open>deleteSpace\<close> and \<^verbatim>\<open>addTab\<close> resolve a space with the same loop over the primary space
  list: the first record whose id or title is the given string. \<open>findSpaceFrom i\<close> is the
  loop from index \<open>i\<close> on; it returns the index and the record (\<^verbatim>\<open>spaceIndex\<close> and
  \<^verbatim>\<open>spaces[spaceIndex]\<close>).
\<close>

fun matchesSpace :: "SpaceObject slot \<Rightarrow> string \<Rightarrow> bool" where
  "matchesSpace (Str s) n = False"
| "matchesSpace (Obj sp) n = (space_id sp = n \<or> space_title sp = n)"

fun findSpaceFrom :: "nat \<Rightarrow> SpaceObject slot list \<Rightarrow> string \<Rightarrow> (nat \<times> SpaceObject) option" where
  "findSpaceFrom i [] n = None"
| "findSpaceFrom i (Str s # xs) n = findSpaceFrom (Suc i) xs n"
| "findSpaceFrom i (Obj sp # xs) n =
     (if space_id sp = n \<or> space_title sp = n then Some (i, sp)
      else findSpaceFrom (Suc i) xs n)"

definition findSpace :: "SpaceObject slot list \<Rightarrow> string \<Rightarrow> (nat \<times> SpaceObject) option" where
  "findSpace sps n = findSpaceFrom 0 sps n"

text \<open>The structural container ids of a space: the entries of \<^verbatim>\<open>containerIDs\<close> that are
  not the markers \<^verbatim>\<open>"pinned"\<close> and \<^verbatim>\<open>"unpinned"\<close>.\<close>

definition structuralIds :: "SpaceObject \<Rightarrow> string list" where
  "structuralIds sp =
     filter (\<lambda>c. c \<noteq> ''pinned'' \<and> c \<noteq> ''unpinned'')
       (case containerIDs sp of None \<Rightarrow> [] | Some cs \<Rightarrow> cs)"

text \<open>\<^verbatim>\<open>xs[i]\<close> for an array of strings: \<^verbatim>\<open>undefined\<close> out of range.\<close>

definition elementAt :: "string list \<Rightarrow> nat \<Rightarrow> string option" where
  "elementAt xs i = (if i < length xs then Some (xs ! i) else None)"

subsection \<open>The frame of a mutating operation\<close>

text \<open>
  Each of \<^verbatim>\<open>createSpace\<close>, \<^verbatim>\<open>deleteSpace\<close>, \<^verbatim>\<open>addTab\<close> and \<^verbatim>\<open>deleteTab\<close> is
  \<^verbatim>\<open>try { load; backup; body; save; return success } catch (e) { return failure }\<close>,
  where the body may return a failure early. \<open>attempt\<close> is the \<^verbatim>\<open>try\<close> block: it yields the
  thrown fault or the returned result, and the file system as it stands at that moment.
  \<open>catch\<close> is the handler.
\<close>

definition attempt ::
  "(SidebarData \<Rightarrow> fault + ('a \<times> SidebarData) result) \<Rightarrow> env \<Rightarrow> world \<Rightarrow> (fault + 'a result) \<times> world" where
  "attempt body e w =
     (case loadSidebar w of
        Inl f \<Rightarrow> (Inl f, w)
      | Inr d \<Rightarrow>
          (case createBackup e w of
             Inl f \<Rightarrow> (Inl f, w)
           | Inr w1 \<Rightarrow>
               (case body d of
                  Inl f \<Rightarrow> (Inl f, w1)
                | Inr (Failure err) \<Rightarrow> (Inr (Failure err), w1)
                | Inr (Success (x, d')) \<Rightarrow>
                    (case saveSidebar d' e w1 of
                       (Some f, w2) \<Rightarrow> (Inl f, w2)
                     | (None, w2) \<Rightarrow> (Inr (Success x), w2)))))"

definition catch :: "(fault + 'a result) \<times> world \<Rightarrow> (fault + 'a result) \<times> world" where
  "catch r = (case fst r of Inl f \<Rightarrow> (Inr (Failure (Caught f)), snd r) | Inr x \<Rightarrow> (Inr x, snd r))"

section \<open>The mutating operations\<close>

subsection \<open>createSpace\<close>

text \<open>\<^verbatim>\<open>s.customInfo?.windowTheme\<close>, and the theme of the first space record that has one.\<close>

definition spaceTheme :: "SpaceObject \<Rightarrow> json_object option" where
  "spaceTheme sp = (case customInfo sp of None \<Rightarrow> None | Some ci \<Rightarrow> windowTheme ci)"

fun findTheme :: "SpaceObject slot list \<Rightarrow> json_object option" where
  "findTheme [] = None"
| "findTheme (Str s # xs) = findTheme xs"
| "findTheme (Obj sp # xs) =
     (case spaceTheme sp of None \<Rightarrow> findTheme xs | Some t \<Rightarrow> Some t)"

definition newSpaceObject :: "string \<Rightarrow> string \<Rightarrow> string \<Rightarrow> string \<Rightarrow> string \<Rightarrow> json_object \<Rightarrow> SpaceObject" where
  "newSpaceObject spaceId name ic pinnedId unpinnedId theme =
     \<lparr>space_id = spaceId, space_title = name, profile = Some True,
      containerIDs = Some [''pinned'', pinnedId, ''unpinned'', unpinnedId],
      newContainerIDs =
        Some [PinnedRole, ContainerRef pinnedId, UnpinnedRole, ContainerRef unpinnedId],
      customInfo =
        Some \<lparr>iconType =
                Some (if CHR ''.'' \<in> set ic then \<lparr>emoji = None, icon = Some ic\<rparr>
                      else \<lparr>emoji = Some ic, icon = None\<rparr>),
              windowTheme = Some theme\<rparr>\<rparr>"

definition newContainer :: "string \<Rightarrow> string \<Rightarrow> rat \<Rightarrow> string \<Rightarrow> ItemObject" where
  "newContainer cid spaceId t deviceId =
     \<lparr>item_id = cid, item_title = None, parentID = None, childrenIds = Some [],
      createdAt = Some t, originatingDevice = Some deviceId, isUnread = Some False,
      item_data = Some \<lparr>tab = None, itemContainer = Some (ItemContainer (Some spaceId))\<rparr>\<rparr>"

definition stamp :: "string \<Rightarrow> rat \<Rightarrow> string \<Rightarrow> 'a \<Rightarrow> 'a stamped" where
  "stamp i t deviceId v =
     \<lparr>st_id = i, lastChangeDate = t, lastChangedDevice = deviceId, st_value = v\<rparr>"

text \<open>Steps 3 and 4: the local mirror, each list only if it is there.\<close>

definition pushLocalSpace :: "SpaceObject \<Rightarrow> sidebarSyncState \<Rightarrow> sidebarSyncState" where
  "pushLocalSpace sp st =
     st\<lparr>l_orderedSpaceIDs := map_option (\<lambda>xs. xs @ [space_id sp]) (l_orderedSpaceIDs st),
        l_spaceModels :=
          map_option
            (\<lambda>xs. xs @ [Str (space_id sp), Obj \<lparr>encodedCKRecordFields = None, lsm_value = sp\<rparr>])
            (l_spaceModels st)\<rparr>"

text \<open>Steps 5 to 7: the remote mirror. The ordered list is created when its holder is
  there without one (\<^verbatim>\<open>value || []\<close>), and the holder is stamped.\<close>

definition pushRemoteSpace ::
  "SpaceObject \<Rightarrow> ItemObject \<Rightarrow> ItemObject \<Rightarrow> rat \<Rightarrow> string \<Rightarrow> syncData \<Rightarrow> syncData" where
  "pushRemoteSpace sp pinnedCont unpinnedCont t deviceId sd =
     sd\<lparr>r_orderedSpaceIDs :=
          map_option
            (\<lambda>m. \<lparr>osi_value =
                     Some ((case osi_value m of None \<Rightarrow> [] | Some xs \<Rightarrow> xs) @ [space_id sp]),
                   osi_lastChangeDate = Some t, osi_lastChangedDevice = Some deviceId\<rparr>)
            (r_orderedSpaceIDs sd),
        r_spaceModels :=
          map_option (\<lambda>xs. xs @ [Str (space_id sp), Obj (stamp (space_id sp) t deviceId sp)])
            (r_spaceModels sd),
        r_items :=
          map_option
            (\<lambda>xs. xs @ [Str (item_id pinnedCont), Obj (stamp (item_id pinnedCont) t deviceId pinnedCont),
                        Str (item_id unpinnedCont),
                        Obj (stamp (item_id unpinnedCont) t deviceId unpinnedCont)])
            (r_items sd)\<rparr>"

definition createSpaceBody ::
  "string \<Rightarrow> string \<Rightarrow> env \<Rightarrow> SidebarData \<Rightarrow> fault + (string \<times> SidebarData) result" where
  "createSpaceBody name ic e d =
     (let spaceId = uuid1 e; pinnedId = uuid2 e; unpinnedId = uuid3 e;
          deviceId = getDeviceId d
      in case findTheme (primarySpaces d) of
           None \<Rightarrow> Inr (Failure ThemeTemplateMissing)
         | Some theme \<Rightarrow>
             (let spaceObj = newSpaceObject spaceId name ic pinnedId unpinnedId theme;
                  pinnedCont = newContainer pinnedId spaceId (ts e) deviceId;
                  unpinnedCont = newContainer unpinnedId spaceId (ts e) deviceId
              in case assignSpaces (primarySpaces d @ [Str spaceId, Obj spaceObj]) d of
                   Inl f \<Rightarrow> Inl f
                 | Inr d1 \<Rightarrow>
                     (case assignItems
                             (primaryItems d1 @
                                [Str pinnedId, Obj pinnedCont, Str unpinnedId, Obj unpinnedCont]) d1 of
                        Inl f \<Rightarrow> Inl f
                      | Inr d2 \<Rightarrow>
                          Inr (Success (spaceId,
                            d2\<lparr>sidebarSyncState :=
                                  map_option (pushLocalSpace spaceObj) (sidebarSyncState d2),
                                firebaseSyncState :=
                                  map_option
                                    (pushRemoteSpace spaceObj pinnedCont unpinnedCont (ts e) deviceId)
                                    (firebaseSyncState d2)\<rparr>)))))"

definition createSpace :: "string \<Rightarrow> string \<Rightarrow> env \<Rightarrow> world \<Rightarrow> (fault + string result) \<times> world" where
  "createSpace name ic e w = catch (attempt (createSpaceBody name ic e) e w)"

subsection \<open>deleteSpace\<close>

text \<open>The key of a slot: the string itself, or the id of the record.\<close>

fun slotKey :: "('a \<Rightarrow> string) \<Rightarrow> 'a slot \<Rightarrow> string" where
  "slotKey f (Str s) = s"
| "slotKey f (Obj x) = f x"

fun records :: "'a slot list \<Rightarrow> 'a list" where
  "records [] = []"
| "records (Str s # xs) = records xs"
| "records (Obj x # xs) = x # records xs"

text \<open>
  \<^verbatim>\<open>itemsToRemove\<close>: the container ids, and the id of every record whose \<^verbatim>\<open>parentID\<close> is
  truthy and among the container ids.
\<close>

definition childOf :: "string list \<Rightarrow> ItemObject \<Rightarrow> bool" where
  "childOf cids it = (case parentID it of None \<Rightarrow> False | Some p \<Rightarrow> p \<noteq> [] \<and> p \<in> set cids)"

definition itemsToRemove :: "string list \<Rightarrow> ItemObject slot list \<Rightarrow> string list" where
  "itemsToRemove cids its = cids @ map item_id (filter (childOf cids) (records its))"

definition dropLocalSpace :: "string \<Rightarrow> sidebarSyncState \<Rightarrow> sidebarSyncState" where
  "dropLocalSpace spaceId st =
     st\<lparr>l_orderedSpaceIDs := map_option (filter (\<lambda>i. i \<noteq> spaceId)) (l_orderedSpaceIDs st),
        l_spaceModels :=
          map_option (filter (\<lambda>x. slotKey (\<lambda>m. space_id (lsm_value m)) x \<noteq> spaceId))
            (l_spaceModels st)\<rparr>"

definition dropRemoteSpace :: "string \<Rightarrow> string list \<Rightarrow> syncData \<Rightarrow> syncData" where
  "dropRemoteSpace spaceId gone sd =
     sd\<lparr>r_orderedSpaceIDs :=
          map_option
            (\<lambda>m. case osi_value m of
                    None \<Rightarrow> m
                  | Some xs \<Rightarrow> m\<lparr>osi_value := Some (filter (\<lambda>i. i \<noteq> spaceId) xs)\<rparr>)
            (r_orderedSpaceIDs sd),
        r_spaceModels :=
          map_option (filter (\<lambda>x. slotKey st_id x \<noteq> spaceId)) (r_spaceModels sd),
        r_items := map_option (filter (\<lambda>x. slotKey st_id x \<notin> set gone)) (r_items sd)\<rparr>"

definition deleteSpaceBody :: "string \<Rightarrow> SidebarData \<Rightarrow> fault + (unit \<times> SidebarData) result" where
  "deleteSpaceBody n d =
     (case findSpace (primarySpaces d) n of
        None \<Rightarrow> Inr (Failure (SpaceNotFound n))
      | Some (i, sp) \<Rightarrow>
          if space_id sp = [] then Inr (Failure (SpaceNotFound n))
          else
            (let spaceId = space_id sp; containerIds = structuralIds sp
             in case assignSpaces
                       (filter (\<lambda>x. slotKey space_id x \<noteq> spaceId) (primarySpaces d)) d of
                  Inl f \<Rightarrow> Inl f
                | Inr d1 \<Rightarrow>
                    (let gone = itemsToRemove containerIds (primaryItems d1)
                     in case assignItems
                               (filter (\<lambda>x. slotKey item_id x \<notin> set gone) (primaryItems d1)) d1 of
                          Inl f \<Rightarrow> Inl f
                        | Inr d2 \<Rightarrow>
                            Inr (Success ((),
                              d2\<lparr>sidebarSyncState :=
                                    map_option (dropLocalSpace spaceId) (sidebarSyncState d2),
                                  firebaseSyncState :=
                                    map_option (dropRemoteSpace spaceId gone)
                                      (firebaseSyncState d2)\<rparr>)))))"

definition deleteSpace :: "string \<Rightarrow> env \<Rightarrow> world \<Rightarrow> (fault + unit result) \<times> world" where
  "deleteSpace n e w = catch (attempt (deleteSpaceBody n) e w)"

subsection \<open>addTab\<close>

definition newTab :: "string \<Rightarrow> string \<Rightarrow> string \<Rightarrow> string option \<Rightarrow> rat \<Rightarrow> string \<Rightarrow> ItemObject" where
  "newTab tabId containerId url title t deviceId =
     \<lparr>item_id = tabId, item_title = None, parentID = Some containerId, childrenIds = Some [],
      createdAt = Some t, originatingDevice = Some deviceId, isUnread = Some False,
      item_data =
        Some \<lparr>tab = Some \<lparr>savedURL = Some url,
                            savedTitle = Some (orElse title url),
                            savedMuteStatus = Some ''allowAudio'',
                            timeLastActiveAt = Some t\<rparr>,
              itemContainer = None\<rparr>\<rparr>"

text \<open>The loop that appends the tab id to the child list of the first record whose id is
  the container id, creating the list if the record has none.\<close>

fun appendChild :: "string \<Rightarrow> string \<Rightarrow> ItemObject slot list \<Rightarrow> ItemObject slot list" where
  "appendChild cid tid [] = []"
| "appendChild cid tid (Str s # xs) = Str s # appendChild cid tid xs"
| "appendChild cid tid (Obj it # xs) =
     (if item_id it = cid
      then Obj (it\<lparr>childrenIds :=
                      Some ((case childrenIds it of None \<Rightarrow> [] | Some cs \<Rightarrow> cs) @ [tid])\<rparr>) # xs
      else Obj it # appendChild cid tid xs)"

text \<open>
  The record pushed to the remote mirror is the very object pushed to the primary list,
  so it is read back from there: were the tab id to equal the container id, the loop
  would have changed it.
\<close>

definition lastRecord :: "ItemObject \<Rightarrow> ItemObject slot list \<Rightarrow> ItemObject" where
  "lastRecord dflt xs =
     (case rev xs of [] \<Rightarrow> dflt | Str s # ys \<Rightarrow> dflt | Obj it # ys \<Rightarrow> it)"

definition addTabBody ::
  "string \<Rightarrow> string \<Rightarrow> string option \<Rightarrow> bool \<Rightarrow> env \<Rightarrow> SidebarData \<Rightarrow>
     fault + (string \<times> SidebarData) result" where
  "addTabBody n url title pinned e d =
     (case findSpace (primarySpaces d) n of
        None \<Rightarrow> Inr (Failure (SpaceNotFound n))
      | Some (i, sp) \<Rightarrow>
          if space_id sp = [] then Inr (Failure (SpaceNotFound n))
          else
            (let containerIds = structuralIds sp;
                 containerId = (if pinned then elementAt containerIds 0 else elementAt containerIds 1)
             in case containerId of
                  None \<Rightarrow> Inr (Failure (ContainerMissing (space_id sp)))
                | Some cid \<Rightarrow>
                    if cid = [] then Inr (Failure (ContainerMissing (space_id sp)))
                    else
                      (let tabId = uuid1 e; deviceId = getDeviceId d;
                           tabObj = newTab tabId cid url title (ts e) deviceId;
                           its = appendChild cid tabId (primaryItems d @ [Str tabId, Obj tabObj])
                       in case assignItems its d of
                            Inl f \<Rightarrow> Inl f
                          | Inr d1 \<Rightarrow>
                              Inr (Success (tabId,
                                d1\<lparr>firebaseSyncState :=
                                      map_option
                                        (\<lambda>sd. sd\<lparr>r_items :=
                                           map_option
                                             (\<lambda>xs. xs @ [Str tabId,
                                                Obj (stamp tabId (ts e) deviceId (lastRecord tabObj its))])
                                             (r_items sd)\<rparr>)
                                        (firebaseSyncState d1)\<rparr>)))))"

definition addTab ::
  "string \<Rightarrow> string \<Rightarrow> string option \<Rightarrow> bool \<Rightarrow> env \<Rightarrow> world \<Rightarrow> (fault + string result) \<times> world" where
  "addTab n url title pinned e w = catch (attempt (addTabBody n url title pinned e) e w)"

subsection \<open>deleteTab\<close>

text \<open>The first record with the given id.\<close>

fun findItem :: "string \<Rightarrow> ItemObject slot list \<Rightarrow> ItemObject option" where
  "findItem tid [] = None"
| "findItem tid (Str s # xs) = findItem tid xs"
| "findItem tid (Obj it # xs) = (if item_id it = tid then Some it else findItem tid xs)"

text \<open>The loop that filters the id out of the child list of the first record that has
  the parent's id and a child list.\<close>

fun detachChild :: "string \<Rightarrow> string \<Rightarrow> ItemObject slot list \<Rightarrow> ItemObject slot list" where
  "detachChild pid tid [] = []"
| "detachChild pid tid (Str s # xs) = Str s # detachChild pid tid xs"
| "detachChild pid tid (Obj it # xs) =
     (case childrenIds it of
        None \<Rightarrow> Obj it # detachChild pid tid xs
      | Some cs \<Rightarrow>
          if item_id it = pid then Obj (it\<lparr>childrenIds := Some (filter (\<lambda>c. c \<noteq> tid) cs)\<rparr>) # xs
          else Obj it # detachChild pid tid xs)"

text \<open>\<^verbatim>\<open>item.parentID || undefined\<close>: the parent id, if there is a truthy one.\<close>

definition parentOf :: "ItemObject \<Rightarrow> string option" where
  "parentOf it = (case parentID it of None \<Rightarrow> None | Some p \<Rightarrow> if p \<noteq> [] then Some p else None)"

definition deleteTabBody :: "string \<Rightarrow> SidebarData \<Rightarrow> fault + (unit \<times> SidebarData) result" where
  "deleteTabBody tabId d =
     (case findItem tabId (primaryItems d) of
        None \<Rightarrow> Inr (Failure (TabNotFound tabId))
      | Some it \<Rightarrow>
          (let parentId = parentOf it;
               newItems = filter (\<lambda>x. slotKey item_id x \<noteq> tabId) (primaryItems d)
           in case assignItems
                     (case parentId of None \<Rightarrow> newItems | Some p \<Rightarrow> detachChild p tabId newItems) d of
                Inl f \<Rightarrow> Inl f
              | Inr d1 \<Rightarrow>
                  Inr (Success ((),
                    d1\<lparr>firebaseSyncState :=
                          map_option
                            (\<lambda>sd. sd\<lparr>r_items :=
                               map_option (filter (\<lambda>x. slotKey st_id x \<noteq> tabId)) (r_items sd)\<rparr>)
                            (firebaseSyncState d1)\<rparr>))))"

definition deleteTab :: "string \<Rightarrow> env \<Rightarrow> world \<Rightarrow> (fault + unit result) \<times> world" where
  "deleteTab tabId e w = catch (attempt (deleteTabBody tabId) e w)"

section \<open>The listings\<close>

text \<open>
  The listings load the document and return a view. They have no \<^verbatim>\<open>try\<close> block: a fault
  of the load leaves the function as an exception, which the model returns as \<open>Inl\<close>.
\<close>

subsection \<open>listSpaces\<close>

record Space =
  sp_id :: string
  sp_title :: string
  sp_icon :: "string option"

definition spaceIcon :: "SpaceObject \<Rightarrow> string option" where
  "spaceIcon sp =
     (case customInfo sp of
        None \<Rightarrow> None
      | Some ci \<Rightarrow>
          (case iconType ci of
             None \<Rightarrow> None
           | Some ity \<Rightarrow> if truthy (emoji ity) then emoji ity else icon ity))"

fun listedSpaces :: "SpaceObject slot list \<Rightarrow> Space list" where
  "listedSpaces [] = []"
| "listedSpaces (Str s # xs) = listedSpaces xs"
| "listedSpaces (Obj sp # xs) =
     (if space_id sp \<noteq> [] \<and> space_title sp \<noteq> []
      then \<lparr>sp_id = space_id sp, sp_title = space_title sp, sp_icon = spaceIcon sp\<rparr> # listedSpaces xs
      else listedSpaces xs)"

definition listSpaces :: "world \<Rightarrow> fault + Space list" where
  "listSpaces w =
     (case loadSidebar w of Inl f \<Rightarrow> Inl f | Inr d \<Rightarrow> Inr (listedSpaces (primarySpaces d)))"

subsection \<open>The nested listing\<close>

text \<open>A node of the tree: a tab with id, title and url, or a folder with id, title and
  children.\<close>

datatype node = TabNode string string string | FolderNode string string "node list"

record SpaceTabs =
  spaceId :: string
  spaceTitle :: string
  pinned :: "node list"
  unpinned :: "node list"

text \<open>\<^verbatim>\<open>itemMap\<close>: every record is stored under its id, a later record replacing an earlier
  one with the same id.\<close>

definition enterItem :: "(string \<rightharpoonup> ItemObject) \<Rightarrow> ItemObject slot \<Rightarrow> (string \<rightharpoonup> ItemObject)" where
  "enterItem m x = (case x of Str s \<Rightarrow> m | Obj it \<Rightarrow> m(item_id it \<mapsto> it))"

definition itemMap :: "ItemObject slot list \<Rightarrow> (string \<rightharpoonup> ItemObject)" where
  "itemMap its = foldl enterItem Map.empty its"

text \<open>The target space: the first record when no name is given (or an empty one), else
  the first record with that id or title.\<close>

fun findTarget :: "string option \<Rightarrow> SpaceObject slot list \<Rightarrow> SpaceObject option" where
  "findTarget sel [] = None"
| "findTarget sel (Str s # xs) = findTarget sel xs"
| "findTarget sel (Obj sp # xs) =
     (if \<not> truthy sel \<or> Some (space_id sp) = sel \<or> Some (space_title sp) = sel then Some sp
      else findTarget sel xs)"

datatype itemType = TabType | FolderType | ContainerType

definition hasTab :: "ItemObject \<Rightarrow> bool" where
  "hasTab it = (case item_data it of None \<Rightarrow> False | Some dt \<Rightarrow> tab dt \<noteq> None)"

definition hasContainer :: "ItemObject \<Rightarrow> bool" where
  "hasContainer it = (case item_data it of None \<Rightarrow> False | Some dt \<Rightarrow> itemContainer dt \<noteq> None)"

definition children :: "ItemObject \<Rightarrow> string list" where
  "children it = (case childrenIds it of None \<Rightarrow> [] | Some cs \<Rightarrow> cs)"

definition getItemType :: "ItemObject \<Rightarrow> itemType" where
  "getItemType it =
     (if hasTab it then TabType
      else if hasContainer it then ContainerType
      else if children it \<noteq> [] then FolderType
      else FolderType)"

text \<open>\<^verbatim>\<open>item.data?.tab?.savedURL\<close> and \<^verbatim>\<open>item.data?.tab?.savedTitle\<close>.\<close>

definition tabField :: "(tabData \<Rightarrow> string option) \<Rightarrow> ItemObject \<Rightarrow> string option" where
  "tabField f it =
     (case item_data it of None \<Rightarrow> None | Some dt \<Rightarrow> (case tab dt of None \<Rightarrow> None | Some t \<Rightarrow> f t))"

definition tabTitle :: "ItemObject \<Rightarrow> string" where
  "tabTitle it = orElse (tabField savedTitle it) (orElse (tabField savedURL it) ''Untitled'')"

definition tabUrl :: "ItemObject \<Rightarrow> string" where
  "tabUrl it = orElse (tabField savedURL it) []"

definition folderTitle :: "ItemObject \<Rightarrow> string" where
  "folderTitle it = orElse (item_title it) ''Untitled''"

text \<open>
  The results of the calls on a child list, in order: \<open>None\<close> if a call did not return,
  else the nodes, a \<^verbatim>\<open>null\<close> result being left out.
\<close>

fun collect :: "'a option option list \<Rightarrow> 'a list option" where
  "collect [] = Some []"
| "collect (None # rs) = None"
| "collect (Some r # rs) =
     (case collect rs of
        None \<Rightarrow> None
      | Some ns \<Rightarrow> Some (case r of None \<Rightarrow> ns | Some t \<Rightarrow> t # ns))"

text \<open>
  \<^verbatim>\<open>buildTree\<close> recurses over \<^verbatim>\<open>childrenIds\<close>, and nothing stops it on a document whose
  child lists form a cycle: there the recursion ends when the call stack is exhausted.
  The first argument is the depth of stack left; \<open>None\<close> says that the call did not
  return, \<open>Some None\<close> that it returned \<^verbatim>\<open>null\<close>.
\<close>

fun buildTree :: "nat \<Rightarrow> (string \<rightharpoonup> ItemObject) \<Rightarrow> string \<Rightarrow> node option option" where
  "buildTree 0 m i = None"
| "buildTree (Suc k) m i =
     (case m i of
        None \<Rightarrow> Some None
      | Some it \<Rightarrow>
          (case getItemType it of
             TabType \<Rightarrow> Some (Some (TabNode (item_id it) (tabTitle it) (tabUrl it)))
           | FolderType \<Rightarrow>
               (case collect (map (buildTree k m) (children it)) of
                  None \<Rightarrow> None
                | Some ns \<Rightarrow> Some (Some (FolderNode (item_id it) (folderTitle it) ns)))
           | ContainerType \<Rightarrow> Some None))"

text \<open>One of the two top-level lists: the children of the container record, whatever its
  type, or nothing when the id is missing or has no record.\<close>

definition bucket :: "nat \<Rightarrow> (string \<rightharpoonup> ItemObject) \<Rightarrow> string option \<Rightarrow> node list option" where
  "bucket k m c =
     (case c of
        None \<Rightarrow> Some []
      | Some cid \<Rightarrow>
          (case m cid of
             None \<Rightarrow> Some []
           | Some cont \<Rightarrow> collect (map (buildTree k m) (children cont))))"

definition listTabs :: "nat \<Rightarrow> string option \<Rightarrow> world \<Rightarrow> fault + SpaceTabs option" where
  "listTabs k sel w =
     (case loadSidebar w of
        Inl f \<Rightarrow> Inl f
      | Inr d \<Rightarrow>
          (let m = itemMap (primaryItems d)
           in case findTarget sel (primarySpaces d) of
                None \<Rightarrow> Inr None
              | Some sp \<Rightarrow>
                  (case bucket k m (elementAt (structuralIds sp) 0) of
                     None \<Rightarrow> Inl RangeError
                   | Some p \<Rightarrow>
                       (case bucket k m (elementAt (structuralIds sp) 1) of
                          None \<Rightarrow> Inl RangeError
                        | Some u \<Rightarrow>
                            Inr (Some \<lparr>spaceId = space_id sp, spaceTitle = space_title sp,
                                       pinned = p, unpinned = u\<rparr>)))))"

subsection \<open>The flat listing\<close>







section \<open>A sample document\<close>

text \<open>
  Two spaces with the same title. The first has a folder in its pinned container, with a
  tab inside, and a tab in its unpinned container; the second has a single structural
  container. Both mirrors are present.
\<close>

definition exSpace :: "string \<Rightarrow> string \<Rightarrow> string list \<Rightarrow> SpaceObject" where
  "exSpace i t cs =
     \<lparr>space_id = i, space_title = t, profile = Some True, containerIDs = Some cs,
      newContainerIDs = None,
      customInfo = Some \<lparr>iconType = Some \<lparr>emoji = None, icon = Some ''star''\<rparr>,
                         windowTheme = Some ''theme''\<rparr>\<rparr>"

definition exItem :: "string \<Rightarrow> string option \<Rightarrow> string option \<Rightarrow> string list \<Rightarrow> itemData option \<Rightarrow> ItemObject" where
  "exItem i t p cs dt =
     \<lparr>item_id = i, item_title = t, parentID = p, childrenIds = Some cs, createdAt = None,
      originatingDevice = Some ''dev'', isUnread = Some False, item_data = dt\<rparr>"

definition exContainerData :: "string \<Rightarrow> itemData option" where
  "exContainerData sid = Some \<lparr>tab = None, itemContainer = Some (ItemContainer (Some sid))\<rparr>"

definition exTabData :: "string \<Rightarrow> string \<Rightarrow> itemData option" where
  "exTabData u t =
     Some \<lparr>tab = Some \<lparr>savedURL = Some u, savedTitle = Some t, savedMuteStatus = None,
                        timeLastActiveAt = None\<rparr>,
           itemContainer = None\<rparr>"

definition exWork :: SpaceObject where
  "exWork = exSpace ''S1'' ''Work'' [''pinned'', ''P1'', ''unpinned'', ''U1'']"

definition exWork2 :: SpaceObject where
  "exWork2 = exSpace ''S2'' ''Work'' [''pinned'', ''P2'']"

definition exSpaces :: "SpaceObject slot list" where
  "exSpaces = [Str ''S1'', Obj exWork, Str ''S2'', Obj exWork2]"

definition exItems :: "ItemObject slot list" where
  "exItems =
     [Str ''P1'', Obj (exItem ''P1'' None None [''F1''] (exContainerData ''S1'')),
      Str ''U1'', Obj (exItem ''U1'' None None [''T1''] (exContainerData ''S1'')),
      Str ''F1'', Obj (exItem ''F1'' (Some ''Docs'') (Some ''P1'') [''T2''] None),
      Str ''T2'', Obj (exItem ''T2'' None (Some ''F1'') [] (exTabData ''https://b.example'' ''B'')),
      Str ''T1'', Obj (exItem ''T1'' None (Some ''U1'') [] (exTabData ''https://a.example'' ''A'')),
      Str ''P2'', Obj (exItem ''P2'' None None [] (exContainerData ''S2''))]"

definition exRemoteItem :: "string \<Rightarrow> ItemObject stamped" where
  "exRemoteItem i = stamp i 0 ''dev'' (exItem i None None [] None)"

definition exDoc :: SidebarData where
  "exDoc =
     \<lparr>containers = [\<lparr>spaces = None, items = None\<rparr>, \<lparr>spaces = Some exSpaces, items = Some exItems\<rparr>],
      sidebarSyncState = Some \<lparr>l_orderedSpaceIDs = Some [''S1'', ''S2''], l_spaceModels = Some []\<rparr>,
      firebaseSyncState =
        Some \<lparr>r_orderedSpaceIDs = None, r_spaceModels = Some [],
              r_items = Some [Str ''T1'', Obj (exRemoteItem ''T1''), Str ''F1'', Obj (exRemoteItem ''F1'')]\<rparr>\<rparr>"

definition exWorld :: world where
  "exWorld = \<lparr>sidebarFile = Some exDoc, backups = Map.empty, writes = 0\<rparr>"

definition exEnv :: env where
  "exEnv =
     \<lparr>uuid1 = ''N1'', uuid2 = ''N2'', uuid3 = ''N3'', backupStamp = 1000, ts = 1, copyOk = True,
      writeOutcome = Completes\<rparr>"

text \<open>A world whose sidebar file is missing or does not parse.\<close>

definition exNoFile :: world where
  "exNoFile = \<lparr>sidebarFile = None, backups = Map.empty, writes = 0\<rparr>"

text \<open>A world whose document has a single space, without a theme.\<close>

definition exPlainSpace :: SpaceObject where
  "exPlainSpace =
     \<lparr>space_id = ''S3'', space_title = ''Plain'', profile = None, containerIDs = None,
      newContainerIDs = None, customInfo = None\<rparr>"

definition exPlainDoc :: SidebarData where
  "exPlainDoc =
     \<lparr>containers = [\<lparr>spaces = None, items = None\<rparr>,
                    \<lparr>spaces = Some [Str ''S3'', Obj exPlainSpace], items = None\<rparr>],
      sidebarSyncState = None, firebaseSyncState = None\<rparr>"

definition exPlain :: world where
  "exPlain = \<lparr>sidebarFile = Some exPlainDoc, backups = Map.empty, writes = 0\<rparr>"

text \<open>A space whose first structural container id is the empty string, and a tab whose
  parent id is the empty string.\<close>

definition exOdd :: SpaceObject where
  "exOdd = exSpace ''S5'' ''Odd'' [''pinned'', [], ''unpinned'', ''U5'']"

definition exStray :: ItemObject where
  "exStray = exItem ''X1'' None (Some []) [] (exTabData ''https://x.example'' ''X'')"

definition exOddDoc :: SidebarData where
  "exOddDoc =
     \<lparr>containers =
        [\<lparr>spaces = None, items = None\<rparr>,
         \<lparr>spaces = Some [Str ''S5'', Obj exOdd],
          items = Some [Str ''U5'', Obj (exItem ''U5'' None None [] (exContainerData ''S5'')),
                        Str ''X1'', Obj exStray]\<rparr>],
      sidebarSyncState = None, firebaseSyncState = None\<rparr>"

definition exOddWorld :: world where
  "exOddWorld = \<lparr>sidebarFile = Some exOddDoc, backups = Map.empty, writes = 0\<rparr>"

text \<open>A space whose pinned container has two records.\<close>

definition exTwin :: SpaceObject where
  "exTwin = exSpace ''S6'' ''Twin'' [''pinned'', ''P6'', ''unpinned'', ''U6'']"

definition exTwinDoc :: SidebarData where
  "exTwinDoc =
     \<lparr>containers =
        [\<lparr>spaces = None, items = None\<rparr>,
         \<lparr>spaces = Some [Str ''S6'', Obj exTwin],
          items = Some [Str ''P6'', Obj (exItem ''P6'' None None [] (exContainerData ''S6'')),
                        Str ''P6'', Obj (exItem ''P6'' None None [] (exContainerData ''S6'')),
                        Str ''U6'', Obj (exItem ''U6'' None None [] (exContainerData ''S6''))]\<rparr>],
      sidebarSyncState = None, firebaseSyncState = None\<rparr>"

definition exTwinWorld :: world where
  "exTwinWorld = \<lparr>sidebarFile = Some exTwinDoc, backups = Map.empty, writes = 0\<rparr>"

text \<open>A second call draws another identifier; a call whose write is torn.\<close>

definition exEnv2 :: env where
  "exEnv2 = exEnv\<lparr>uuid1 := ''N4''\<rparr>"

definition exTornEnv :: env where
  "exTornEnv = exEnv\<lparr>writeOutcome := Torn\<rparr>"

section \<open>The removal set of deleteSpace, as specified\<close>

text \<open>
  The removal set in the words of the specification: the structural container ids of the
  space, and the id of every item record whose parent is one of them.
\<close>

definition claimedRemovalSet :: "SpaceObject \<Rightarrow> ItemObject slot list \<Rightarrow> string set" where
  "claimedRemovalSet sp its =
     set (structuralIds sp) \<union>
     item_id ` set (filter (\<lambda>it. \<exists>c\<in>set (structuralIds sp). parentID it = Some c) (records its))"

text \<open>
  The same with the parent id required to be a non-empty string. Both are stated on
  their own, to be compared with \<open>itemsToRemove\<close>, which follows the code.
\<close>

definition removalSet :: "SpaceObject \<Rightarrow> ItemObject slot list \<Rightarrow> string set" where
  "removalSet sp its =
     set (structuralIds sp) \<union>
     item_id `
       set (filter (\<lambda>it. \<exists>c\<in>set (structuralIds sp). c \<noteq> [] \<and> parentID it = Some c) (records its))"

section \<open>The ids a listing shows\<close>


section \<open>What a mutating call may do to the file\<close>

text \<open>
  The outcome \<open>r\<close> of a call made in the world \<open>w\<close> with the environment \<open>e\<close> respects the
  single save when it is a returned result (not a fault) and
  \<^item> a failure has left the sidebar file and the count of its writes as they were, unless
    it is the caught fault of a torn write, which has destroyed the content of the file
    once;
  \<^item> a success comes with a completed write and has replaced the content of the file
    exactly once;
  \<^item> in both cases the backup files are as they were, but for the one named by the stamp
    of the call, which may have been created or replaced with the document as loaded.
\<close>

definition singleSave :: "env \<Rightarrow> world \<Rightarrow> (fault + 'a result) \<times> world \<Rightarrow> bool" where
  "singleSave e w r =
     ((backups (snd r) = backups w \<or>
       (\<exists>d. sidebarFile w = Some d \<and> backups (snd r) = (backups w)(backupStamp e \<mapsto> d))) \<and>
      (case fst r of
         Inl f \<Rightarrow> False
       | Inr (Failure err) \<Rightarrow>
           (sidebarFile (snd r) = sidebarFile w \<and> writes (snd r) = writes w) \<or>
           (err = Caught StorageFault \<and> writeOutcome e = Torn \<and> sidebarFile (snd r) = None \<and>
            writes (snd r) = Suc (writes w))
       | Inr (Success x) \<Rightarrow>
           writeOutcome e = Completes \<and> sidebarFile (snd r) \<noteq> None \<and>
           writes (snd r) = Suc (writes w)))"

section \<open>Space resolution\<close>

lemma findSpaceFrom_sound:
  "findSpaceFrom i sps n = Some (k, sp) \<Longrightarrow>
     i \<le> k \<and> k - i < length sps \<and> sps ! (k - i) = Obj sp \<and>
     (space_id sp = n \<or> space_title sp = n) \<and> (\<forall>j<k - i. \<not> matchesSpace (sps ! j) n)"
proof (induction i sps n rule: findSpaceFrom.induct)
  case (1 i n)
  then show ?case by simp
next
  case (2 i s xs n)
  then have ih: "Suc i \<le> k \<and> k - Suc i < length xs \<and> xs ! (k - Suc i) = Obj sp \<and>
      (space_id sp = n \<or> space_title sp = n) \<and> (\<forall>j<k - Suc i. \<not> matchesSpace (xs ! j) n)"
    by simp
  then have eq: "k - i = Suc (k - Suc i)" by arith
  show ?case using ih unfolding eq by (auto simp: less_Suc_eq_0_disj)
next
  case (3 i sp' xs n)
  show ?case
  proof (cases "space_id sp' = n \<or> space_title sp' = n")
    case True
    with 3 show ?thesis by auto
  next
    case False
    with 3 have ih: "Suc i \<le> k \<and> k - Suc i < length xs \<and> xs ! (k - Suc i) = Obj sp \<and>
      (space_id sp = n \<or> space_title sp = n) \<and> (\<forall>j<k - Suc i. \<not> matchesSpace (xs ! j) n)"
      by simp
    then have eq: "k - i = Suc (k - Suc i)" by arith
    show ?thesis using ih False unfolding eq by (auto simp: less_Suc_eq_0_disj)
  qed
qed

lemma findSpaceFrom_complete:
  "k < length sps \<Longrightarrow> sps ! k = Obj sp \<Longrightarrow> space_id sp = n \<or> space_title sp = n \<Longrightarrow>
   \<forall>j<k. \<not> matchesSpace (sps ! j) n \<Longrightarrow> findSpaceFrom i sps n = Some (i + k, sp)"
proof (induction sps arbitrary: i k)
  case Nil
  then show ?case by simp
next
  case (Cons x xs)
  show ?case
  proof (cases k)
    case 0
    with Cons.prems show ?thesis by auto
  next
    case (Suc k')
    from Cons.prems(4) Suc have head: "\<not> matchesSpace x n" by auto
    have rest: "\<forall>j<k'. \<not> matchesSpace (xs ! j) n"
    proof (intro allI impI)
      fix j assume "j < k'"
      then have "Suc j < k" using Suc by simp
      with Cons.prems(4) have "\<not> matchesSpace ((x # xs) ! Suc j) n" by blast
      then show "\<not> matchesSpace (xs ! j) n" by simp
    qed
    from Cons.prems Suc have "k' < length xs" "xs ! k' = Obj sp" by auto
    with Cons.IH [of k' "Suc i"] Cons.prems(3) rest
    have "findSpaceFrom (Suc i) xs n = Some (Suc i + k', sp)" by blast
    with head Suc show ?thesis by (cases x) auto
  qed
qed

lemma findSpaceFrom_None:
  "findSpaceFrom i sps n = None \<Longrightarrow> x \<in> set sps \<Longrightarrow> \<not> matchesSpace x n"
  by (induction i sps n rule: findSpaceFrom.induct) (auto split: if_splits)

text \<open>
  C8. Resolution scans the primary space list in storage order and returns the first
  record whose id or title is the given string: \<open>findSpace\<close> yields index \<open>k\<close> and record
  \<open>sp\<close> exactly when slot \<open>k\<close> holds \<open>sp\<close>, \<open>sp\<close> passes the id test or the title test, and
  no earlier slot passes either. Hence, when the records at slots \<open>i < j\<close> share the title
  \<open>t\<close>, resolving \<open>t\<close> stops at slot \<open>i\<close> or before, and never yields slot \<open>j\<close>.
\<close>

theorem findSpace_first_match:
  "(findSpace sps n = Some (k, sp) \<longleftrightarrow>
      k < length sps \<and> sps ! k = Obj sp \<and> (space_id sp = n \<or> space_title sp = n) \<and>
      (\<forall>j<k. \<not> matchesSpace (sps ! j) n)) \<and>
   (i < j \<and> j < length sps \<and> sps ! i = Obj a \<and> sps ! j = Obj b \<and>
    space_title a = t \<and> space_title b = t \<longrightarrow>
      (\<exists>k' sp'. findSpace sps t = Some (k', sp') \<and> k' \<le> i))"
proof (intro conjI impI)
  show "findSpace sps n = Some (k, sp) \<longleftrightarrow>
      k < length sps \<and> sps ! k = Obj sp \<and> (space_id sp = n \<or> space_title sp = n) \<and>
      (\<forall>j<k. \<not> matchesSpace (sps ! j) n)"
    using findSpaceFrom_sound [of 0 sps n k sp] findSpaceFrom_complete [of k sps sp n 0]
    unfolding findSpace_def by auto
next
  assume h: "i < j \<and> j < length sps \<and> sps ! i = Obj a \<and> sps ! j = Obj b \<and>
    space_title a = t \<and> space_title b = t"
  show "\<exists>k' sp'. findSpace sps t = Some (k', sp') \<and> k' \<le> i"
  proof (cases "findSpace sps t")
    case None
    from h have "sps ! i \<in> set sps" by (metis less_trans nth_mem)
    with None findSpaceFrom_None [of 0 sps t "sps ! i"]
    have "\<not> matchesSpace (sps ! i) t" unfolding findSpace_def by simp
    with h show ?thesis by simp
  next
    case (Some r)
    obtain k' sp' where r: "r = (k', sp')" by (cases r)
    from Some r findSpaceFrom_sound [of 0 sps t k' sp']
    have "\<forall>j<k'. \<not> matchesSpace (sps ! j) t" unfolding findSpace_def by simp
    moreover have "matchesSpace (sps ! i) t" using h by simp
    ultimately have "k' \<le> i" by (meson not_le_imp_less)
    with Some r show ?thesis by simp
  qed
qed

theorem findSpace_first_match_witness:
  "findSpace exSpaces ''Work'' = Some (1, exWork) \<and>
   exSpaces ! 3 = Obj exWork2 \<and> space_title exWork2 = ''Work'' \<and>
   (\<exists>k' sp'. findSpace exSpaces ''Work'' = Some (k', sp') \<and> k' \<le> 1)"
  using findSpace_first_match [of exSpaces "''Work''" 1 exWork 1 3 exWork exWork2 "''Work''"]
  by (simp add: exSpaces_def exWork_def exWork2_def exSpace_def)

section \<open>The frame and the primary lists\<close>

lemma primary_if_spaces: "primarySpaces d \<noteq> [] \<Longrightarrow> \<exists>c. primary d = Some c"
  by (cases "primary d") (auto simp: primarySpaces_def)


lemma findSpace_nonempty: "findSpace sps n = Some r \<Longrightarrow> sps \<noteq> []"
  by (auto simp: findSpace_def)

lemma assignItems_Inr:
  "primary d = Some c \<Longrightarrow>
     \<exists>d'. assignItems xs d = Inr d' \<and> primaryItems d' = xs \<and> primarySpaces d' = primarySpaces d \<and>
          sidebarSyncState d' = sidebarSyncState d \<and> firebaseSyncState d' = firebaseSyncState d \<and>
          primary d' \<noteq> None"
  by (auto simp: assignItems_def primary_def primaryItems_def primarySpaces_def split: if_splits)

lemma assignSpaces_Inr:
  "primary d = Some c \<Longrightarrow>
     \<exists>d'. assignSpaces xs d = Inr d' \<and> primarySpaces d' = xs \<and> primaryItems d' = primaryItems d \<and>
          sidebarSyncState d' = sidebarSyncState d \<and> firebaseSyncState d' = firebaseSyncState d \<and>
          primary d' \<noteq> None"
  by (auto simp: assignSpaces_def primary_def primaryItems_def primarySpaces_def split: if_splits)

lemma frame_result:
  "sidebarFile w = Some d \<Longrightarrow> copyOk e \<Longrightarrow>
   fst (catch (attempt body e w)) =
     (case body d of
        Inl f \<Rightarrow> Inr (Failure (Caught f))
      | Inr (Failure err) \<Rightarrow> Inr (Failure err)
      | Inr (Success (x, d')) \<Rightarrow>
          if writeOutcome e = Completes then Inr (Success x)
          else Inr (Failure (Caught StorageFault)))"
  by (cases "writeOutcome e")
     (auto simp: catch_def attempt_def loadSidebar_def createBackup_def saveSidebar_def
        split: sum.splits result.splits prod.splits)

lemma frame_loaded:
  "sidebarFile w = Some d \<Longrightarrow> copyOk e \<Longrightarrow> writeOutcome e = Completes \<Longrightarrow>
   catch (attempt body e w) =
     (case body d of
        Inl f \<Rightarrow> (Inr (Failure (Caught f)), backedUp e d w)
      | Inr (Failure err) \<Rightarrow> (Inr (Failure err), backedUp e d w)
      | Inr (Success (x, d')) \<Rightarrow> (Inr (Success x), written d' (backedUp e d w)))"
  by (auto simp: catch_def attempt_def loadSidebar_def createBackup_def saveSidebar_def
        split: sum.splits result.splits prod.splits)

lemma frame_failed:
  "sidebarFile w = Some d \<Longrightarrow> copyOk e \<Longrightarrow> body d = Inr (Failure err) \<Longrightarrow>
   catch (attempt body e w) = (Inr (Failure err), backedUp e d w)"
  by (simp add: catch_def attempt_def loadSidebar_def createBackup_def)

lemma frame_no_file:
  "sidebarFile w = None \<Longrightarrow> catch (attempt body e w) = (Inr (Failure (Caught StorageFault)), w)"
  by (simp add: catch_def attempt_def loadSidebar_def)

lemma frame_no_copy:
  "\<not> copyOk e \<Longrightarrow> catch (attempt body e w) = (Inr (Failure (Caught StorageFault)), w)"
  by (auto simp: catch_def attempt_def loadSidebar_def createBackup_def split: option.splits)

lemma frame_success:
  assumes "sidebarFile w = Some d" and "fst (catch (attempt body e w)) = Inr (Success x)"
  shows "copyOk e \<and> writeOutcome e = Completes \<and>
     (\<exists>d'. body d = Inr (Success (x, d')) \<and>
        snd (catch (attempt body e w)) = written d' (backedUp e d w))"
proof -
  have copy: "copyOk e"
  proof (rule ccontr)
    assume "\<not> copyOk e"
    from frame_no_copy [OF this, of body w] assms(2) show False by simp
  qed
  from assms(2) have fin: "writeOutcome e = Completes" and
    body: "\<exists>d'. body d = Inr (Success (x, d'))"
    unfolding frame_result [OF assms(1) copy]
    by (auto split: sum.splits result.splits prod.splits if_splits)
  from body obtain d' where d': "body d = Inr (Success (x, d'))" by blast
  with frame_loaded [OF assms(1) copy fin, of body] copy fin show ?thesis by simp
qed

section \<open>The container check of addTab\<close>

lemma addTabBody_resolved:
  assumes "findSpace (primarySpaces d) n = Some (i, sp)" and "space_id sp \<noteq> []"
  shows "\<exists>d'. addTabBody n url title pin e d =
     (case elementAt (structuralIds sp) (if pin then 0 else 1) of
        None \<Rightarrow> Inr (Failure (ContainerMissing (space_id sp)))
      | Some cid \<Rightarrow>
          if cid = [] then Inr (Failure (ContainerMissing (space_id sp)))
          else Inr (Success (uuid1 e, d')))"
proof -
  from assms(1) obtain c where c: "primary d = Some c"
    using primary_if_spaces findSpace_nonempty by blast
  show ?thesis
  proof (cases "elementAt (structuralIds sp) (if pin then 0 else 1)")
    case None
    with assms show ?thesis by (auto simp: addTabBody_def Let_def)
  next
    case (Some cid)
    show ?thesis
    proof (cases "cid = []")
      case True
      with Some assms show ?thesis by (auto simp: addTabBody_def Let_def)
    next
      case False
      let ?its = "appendChild cid (uuid1 e)
         (primaryItems d @ [Str (uuid1 e), Obj (newTab (uuid1 e) cid url title (ts e) (getDeviceId d))])"
      from assignItems_Inr [OF c, of ?its] obtain d1 where "assignItems ?its d = Inr d1" by blast
      with Some False assms show ?thesis by (auto simp: addTabBody_def Let_def)
    qed
  qed
qed

text \<open>
  C3 (as amended). For a resolved space, \<open>addTab\<close> fails with the missing-container
  condition exactly when the structural container id at the selected position (the first
  if pinned, the second if not) is absent or empty. So a space with no structural id
  fails for both values of the flag, and a space with fewer than two fails for an
  unpinned tab; where the selected id is there, \<open>addTab\<close> succeeds with the new tab id
  once its write completes, and reports the caught fault of the write otherwise.
\<close>

theorem addTab_container_missing:
  assumes "sidebarFile w = Some d" and "copyOk e"
    and "findSpace (primarySpaces d) n = Some (i, sp)" and "space_id sp \<noteq> []"
  shows "(fst (addTab n url title pin e w) = Inr (Failure (ContainerMissing (space_id sp))) \<longleftrightarrow>
           \<not> truthy (elementAt (structuralIds sp) (if pin then 0 else 1))) \<and>
         (structuralIds sp = [] \<longrightarrow>
            fst (addTab n url title pin e w) = Inr (Failure (ContainerMissing (space_id sp)))) \<and>
         (length (structuralIds sp) < 2 \<and> \<not> pin \<longrightarrow>
            fst (addTab n url title pin e w) = Inr (Failure (ContainerMissing (space_id sp)))) \<and>
         (truthy (elementAt (structuralIds sp) (if pin then 0 else 1)) \<longrightarrow>
            fst (addTab n url title pin e w) =
              (if writeOutcome e = Completes then Inr (Success (uuid1 e))
               else Inr (Failure (Caught StorageFault))))"
proof -
  from addTabBody_resolved [OF assms(3,4), of url title pin e]
  obtain d' where body: "addTabBody n url title pin e d =
     (case elementAt (structuralIds sp) (if pin then 0 else 1) of
        None \<Rightarrow> Inr (Failure (ContainerMissing (space_id sp)))
      | Some cid \<Rightarrow>
          if cid = [] then Inr (Failure (ContainerMissing (space_id sp)))
          else Inr (Success (uuid1 e, d')))" by blast
  have res: "fst (addTab n url title pin e w) =
     (if truthy (elementAt (structuralIds sp) (if pin then 0 else 1))
      then (if writeOutcome e = Completes then Inr (Success (uuid1 e))
            else Inr (Failure (Caught StorageFault)))
      else Inr (Failure (ContainerMissing (space_id sp))))"
    unfolding addTab_def frame_result [OF assms(1,2)] body
    by (auto simp: truthy_def split: option.splits)
  show ?thesis unfolding res by (auto simp: truthy_def elementAt_def)
qed


subsection \<open>The sample document evaluated\<close>

lemma ex_file: "sidebarFile exWorld = Some exDoc" by (simp add: exWorld_def)
lemma ex_copy: "copyOk exEnv" by (simp add: exEnv_def)
lemma ex_spaces: "primarySpaces exDoc = exSpaces" by (simp add: primarySpaces_def primary_def exDoc_def)
lemma ex_items: "primaryItems exDoc = exItems" by (simp add: primaryItems_def primary_def exDoc_def)
lemma ex_find_S2: "findSpace exSpaces ''S2'' = Some (3, exWork2)"
  by (simp add: findSpace_def exSpaces_def exWork_def exWork2_def exSpace_def)
lemma ex_find_S1: "findSpace exSpaces ''S1'' = Some (1, exWork)"
  by (simp add: findSpace_def exSpaces_def exWork_def exWork2_def exSpace_def)
lemma ex_ids_S2: "structuralIds exWork2 = [''P2'']"
  by (simp add: structuralIds_def exWork2_def exSpace_def)
lemma ex_ids_S1: "structuralIds exWork = [''P1'', ''U1'']"
  by (simp add: structuralIds_def exWork_def exSpace_def)

lemma ex_id_S2: "space_id exWork2 = ''S2''" by (simp add: exWork2_def exSpace_def)
lemma ex_id_S1: "space_id exWork = ''S1''" by (simp add: exWork_def exSpace_def)
lemma ex_uuid1: "uuid1 exEnv = ''N1''" by (simp add: exEnv_def)
lemma ex_write: "writeOutcome exEnv = Completes" by (simp add: exEnv_def)

text \<open>
  The second sample space has one structural container id. Adding a pinned tab to it
  succeeds: the check is on the selected id only.
\<close>

theorem addTab_single_container_counterexample:
  "findSpace (primarySpaces exDoc) ''S2'' = Some (3, exWork2) \<and>
   length (structuralIds exWork2) < 2 \<and>
   fst (addTab ''S2'' ''https://c.example'' None True exEnv exWorld) = Inr (Success ''N1'')"
proof -
  have f2: "findSpace (primarySpaces exDoc) ''S2'' = Some (3, exWork2)"
    by (simp add: ex_spaces ex_find_S2)
  have i2: "space_id exWork2 \<noteq> []" by (simp add: ex_id_S2)
  from addTabBody_resolved [OF f2 i2, of "''https://c.example''" None True exEnv]
  obtain d' where
    "addTabBody ''S2'' ''https://c.example'' None True exEnv exDoc = Inr (Success (''N1'', d'))"
    by (auto simp: ex_ids_S2 elementAt_def ex_uuid1)
  then show ?thesis
    by (simp add: addTab_def frame_loaded [OF ex_file ex_copy ex_write] f2 ex_ids_S2)
qed

theorem addTab_container_missing_witness:
  "findSpace (primarySpaces exDoc) ''S2'' = Some (3, exWork2) \<and>
   structuralIds exWork2 = [''P2''] \<and>
   fst (addTab ''S2'' ''https://c.example'' None False exEnv exWorld) =
     Inr (Failure (ContainerMissing ''S2'')) \<and>
   fst (addTab ''S1'' ''https://c.example'' None False exEnv exWorld) = Inr (Success ''N1'')"
proof -
  have f2: "findSpace (primarySpaces exDoc) ''S2'' = Some (3, exWork2)"
    by (simp add: ex_spaces ex_find_S2)
  have f1: "findSpace (primarySpaces exDoc) ''S1'' = Some (1, exWork)"
    by (simp add: ex_spaces ex_find_S1)
  have i2: "space_id exWork2 \<noteq> []" by (simp add: ex_id_S2)
  have i1: "space_id exWork \<noteq> []" by (simp add: ex_id_S1)
  from addTab_container_missing [OF ex_file ex_copy f2 i2, of "''https://c.example''" None False]
    addTab_container_missing [OF ex_file ex_copy f1 i1, of "''https://c.example''" None False]
  show ?thesis
    by (simp add: f2 ex_ids_S2 ex_ids_S1 elementAt_def truthy_def ex_id_S2 ex_id_S1 ex_uuid1 ex_write)
qed

section \<open>The theme template of createSpace\<close>

lemma findTheme_None_iff:
  "findTheme sps = None \<longleftrightarrow> (\<forall>sp\<in>set (records sps). spaceTheme sp = None)"
  by (induction sps rule: findTheme.induct) (auto split: option.splits)

lemma findTheme_nonempty: "findTheme sps = Some t \<Longrightarrow> sps \<noteq> []"
  by auto

lemma createSpaceBody_result:
  "\<exists>d'. createSpaceBody name ic e d =
     (case findTheme (primarySpaces d) of
        None \<Rightarrow> Inr (Failure ThemeTemplateMissing)
      | Some t \<Rightarrow> Inr (Success (uuid1 e, d')))"
proof (cases "findTheme (primarySpaces d)")
  case None
  then show ?thesis by (simp add: createSpaceBody_def Let_def)
next
  case (Some t)
  then obtain c where c: "primary d = Some c"
    using primary_if_spaces findTheme_nonempty by blast
  let ?sp = "newSpaceObject (uuid1 e) name ic (uuid2 e) (uuid3 e) t"
  from assignSpaces_Inr [OF c, of "primarySpaces d @ [Str (uuid1 e), Obj ?sp]"]
  obtain d1 where d1: "assignSpaces (primarySpaces d @ [Str (uuid1 e), Obj ?sp]) d = Inr d1"
    and p1: "primary d1 \<noteq> None" by blast
  from p1 obtain c1 where c1: "primary d1 = Some c1" by blast
  from assignItems_Inr [OF c1] have "\<And>xs. \<exists>d2. assignItems xs d1 = Inr d2" by blast
  then obtain d2 where "assignItems
      (primaryItems d1 @
        [Str (uuid2 e), Obj (newContainer (uuid2 e) (uuid1 e) (ts e) (getDeviceId d)),
         Str (uuid3 e), Obj (newContainer (uuid3 e) (uuid1 e) (ts e) (getDeviceId d))]) d1 = Inr d2"
    by blast
  with Some d1 show ?thesis by (simp add: createSpaceBody_def Let_def)
qed

text \<open>
  C4. On a loaded document, \<open>createSpace\<close> fails with the missing-theme condition if and
  only if no space record of the primary space list carries a theme. On that failure the
  sidebar file holds what it held and has not been written: no record has reached the
  primary lists or a mirror. When some space carries a theme, the call succeeds once its
  write completes, and reports the caught fault of the write otherwise.
\<close>

theorem createSpace_theme_template:
  assumes "sidebarFile w = Some d" and "copyOk e"
  shows "(fst (createSpace name ic e w) = Inr (Failure ThemeTemplateMissing) \<longleftrightarrow>
            (\<forall>sp\<in>set (records (primarySpaces d)). spaceTheme sp = None)) \<and>
         (fst (createSpace name ic e w) = Inr (Failure ThemeTemplateMissing) \<longrightarrow>
            sidebarFile (snd (createSpace name ic e w)) = Some d \<and>
            writes (snd (createSpace name ic e w)) = writes w) \<and>
         (fst (createSpace name ic e w) \<noteq> Inr (Failure ThemeTemplateMissing) \<longrightarrow>
            fst (createSpace name ic e w) =
              (if writeOutcome e = Completes then Inr (Success (uuid1 e))
               else Inr (Failure (Caught StorageFault))))"
proof -
  from createSpaceBody_result [of name ic e d] obtain d' where
    body: "createSpaceBody name ic e d =
     (case findTheme (primarySpaces d) of
        None \<Rightarrow> Inr (Failure ThemeTemplateMissing)
      | Some t \<Rightarrow> Inr (Success (uuid1 e, d')))" by blast
  show ?thesis
  proof (cases "findTheme (primarySpaces d)")
    case None
    with body have "createSpaceBody name ic e d = Inr (Failure ThemeTemplateMissing)" by simp
    then show ?thesis
      using None assms(1)
      by (simp add: createSpace_def frame_failed [OF assms] findTheme_None_iff [symmetric]
            backedUp_def)
  next
    case (Some t)
    with body have "createSpaceBody name ic e d = Inr (Success (uuid1 e, d'))" by simp
    then show ?thesis
      using Some
      by (simp add: createSpace_def frame_result [OF assms] findTheme_None_iff [symmetric])
  qed
qed

theorem createSpace_theme_template_witness:
  "fst (createSpace ''Personal'' ''house'' exEnv exWorld) = Inr (Success ''N1'') \<and>
   spaceTheme exWork = Some ''theme'' \<and>
   fst (createSpace ''Personal'' ''house'' exEnv exPlain) = Inr (Failure ThemeTemplateMissing) \<and>
   sidebarFile (snd (createSpace ''Personal'' ''house'' exEnv exPlain)) = Some exPlainDoc \<and>
   writes (snd (createSpace ''Personal'' ''house'' exEnv exPlain)) = 0"
proof -
  have themed: "fst (createSpace ''Personal'' ''house'' exEnv exWorld) \<noteq> Inr (Failure ThemeTemplateMissing)"
    using createSpace_theme_template [OF ex_file ex_copy, of "''Personal''" "''house''"]
    by (simp add: ex_spaces exSpaces_def spaceTheme_def exWork_def exSpace_def)
  have pf: "sidebarFile exPlain = Some exPlainDoc" by (simp add: exPlain_def)
  have plain: "primarySpaces exPlainDoc = [Str ''S3'', Obj exPlainSpace]"
    by (simp add: primarySpaces_def primary_def exPlainDoc_def)
  have none: "spaceTheme exPlainSpace = None" by (simp add: spaceTheme_def exPlainSpace_def)
  have w0: "writes exPlain = 0" by (simp add: exPlain_def)
  show ?thesis
    using themed createSpace_theme_template [OF ex_file ex_copy, of "''Personal''" "''house''"]
      createSpace_theme_template [OF pf ex_copy, of "''Personal''" "''house''"]
    by (simp add: ex_uuid1 ex_write spaceTheme_def exWork_def exSpace_def plain exPlainSpace_def w0)
qed

section \<open>Faults and the single save\<close>

lemma frame_singleSave: "singleSave e w (catch (attempt body e w))"
proof (cases "sidebarFile w")
  case None
  then show ?thesis by (simp add: frame_no_file singleSave_def)
next
  case (Some d)
  show ?thesis
  proof (cases "copyOk e")
    case False
    then show ?thesis by (simp add: frame_no_copy singleSave_def)
  next
    case True
    show ?thesis
      using Some True
      by (cases "writeOutcome e")
         (auto simp: singleSave_def catch_def attempt_def loadSidebar_def createBackup_def
            saveSidebar_def written_def backedUp_def
            split: sum.splits result.splits prod.splits)
  qed
qed

text \<open>
  C6 (as amended). Every mutating operation returns a result, and writes the sidebar
  file only in its final save step, at most once. A failure leaves the file holding what
  it held and unwritten, except when it is the failure of that final write after the
  file was truncated: this too is returned as a failure, the caught storage fault, and
  leaves a file that does not parse. A success comes with a completed write, the only
  one. Either way at most the backup file of the call has been created or replaced.
\<close>

theorem failure_leaves_file:
  "singleSave e w (createSpace name ic e w) \<and> singleSave e w (deleteSpace n e w) \<and>
   singleSave e w (addTab n url title pin e w) \<and> singleSave e w (deleteTab tid e w)"
  by (simp add: createSpace_def deleteSpace_def addTab_def deleteTab_def frame_singleSave)

text \<open>
  With a write that is torn, \<open>deleteTab\<close> on a tab of the sample document returns a
  failure, and the sidebar file no longer holds the document.
\<close>

theorem torn_write_counterexample:
  "sidebarFile exWorld = Some exDoc \<and>
   fst (deleteTab ''T1'' exTornEnv exWorld) = Inr (Failure (Caught StorageFault)) \<and>
   sidebarFile (snd (deleteTab ''T1'' exTornEnv exWorld)) = None \<and>
   writes (snd (deleteTab ''T1'' exTornEnv exWorld)) = Suc (writes exWorld)"
proof -
  have a: "fst (deleteTab ''T1'' exTornEnv exWorld) = Inr (Failure (Caught StorageFault))"
    by code_simp
  have b: "sidebarFile (snd (deleteTab ''T1'' exTornEnv exWorld)) = None" by code_simp
  have c: "writes (snd (deleteTab ''T1'' exTornEnv exWorld)) = Suc (writes exWorld)" by code_simp
  from a b c show ?thesis by (simp add: exWorld_def)
qed

text \<open>
  C5 (as amended). Each of the four mutating operations returns a result for every
  input, never a fault; on a missing or unparsable sidebar file, and when the backup
  cannot be written, the result is the failure that carries the caught fault.
\<close>

theorem mutations_catch_faults:
  "(\<exists>r. fst (createSpace name ic e w) = Inr r) \<and> (\<exists>r. fst (deleteSpace n e w) = Inr r) \<and>
   (\<exists>r. fst (addTab n url title pin e w) = Inr r) \<and> (\<exists>r. fst (deleteTab tid e w) = Inr r) \<and>
   (sidebarFile w = None \<or> \<not> copyOk e \<longrightarrow>
      fst (createSpace name ic e w) = Inr (Failure (Caught StorageFault)) \<and>
      fst (deleteSpace n e w) = Inr (Failure (Caught StorageFault)) \<and>
      fst (addTab n url title pin e w) = Inr (Failure (Caught StorageFault)) \<and>
      fst (deleteTab tid e w) = Inr (Failure (Caught StorageFault)))"
proof -
  have ret: "\<exists>r. fst (catch x) = Inr r" for x :: "(fault + 'a result) \<times> world"
    by (cases "fst x") (simp_all add: catch_def)
  have lost: "sidebarFile w = None \<or> \<not> copyOk e \<Longrightarrow>
      fst (catch (attempt body e w)) = Inr (Failure (Caught StorageFault))"
    for body :: "SidebarData \<Rightarrow> fault + ('a \<times> SidebarData) result"
    using frame_no_file [of w body e] frame_no_copy [of e body w] by auto
  show ?thesis
    unfolding createSpace_def deleteSpace_def addTab_def deleteTab_def
    by (intro conjI impI ret lost; assumption)
qed

theorem mutations_catch_faults_witness:
  "sidebarFile exNoFile = None \<and>
   fst (createSpace ''Personal'' ''house'' exEnv exNoFile) = Inr (Failure (Caught StorageFault)) \<and>
   fst (deleteSpace ''Work'' exEnv exNoFile) = Inr (Failure (Caught StorageFault)) \<and>
   fst (addTab ''Work'' ''https://c.example'' None False exEnv exNoFile) =
     Inr (Failure (Caught StorageFault)) \<and>
   fst (deleteTab ''T1'' exEnv exNoFile) = Inr (Failure (Caught StorageFault))"
  using mutations_catch_faults [of "''Personal''" "''house''" exEnv exNoFile "''Work''"
      "''https://c.example''" None False "''T1''"]
  by (simp add: exNoFile_def)

text \<open>The listing of spaces has no handler: on a missing file the fault of the load
  leaves the operation.\<close>

theorem listSpaces_fault_counterexample: "listSpaces exNoFile = Inl StorageFault"
  by (simp add: listSpaces_def loadSidebar_def exNoFile_def)

section \<open>What deleteSpace removes\<close>

lemma primary_mirrors [simp]:
  "primaryItems (d\<lparr>sidebarSyncState := a\<rparr>) = primaryItems d"
  "primarySpaces (d\<lparr>sidebarSyncState := a\<rparr>) = primarySpaces d"
  "primaryItems (d\<lparr>firebaseSyncState := b\<rparr>) = primaryItems d"
  "primarySpaces (d\<lparr>firebaseSyncState := b\<rparr>) = primarySpaces d"
  by (simp_all add: primaryItems_def primarySpaces_def primary_def)

lemma itemsToRemove_set: "set (itemsToRemove (structuralIds sp) its) = removalSet sp its"
proof -
  have "childOf (structuralIds sp) it \<longleftrightarrow>
      (\<exists>c\<in>set (structuralIds sp). c \<noteq> [] \<and> parentID it = Some c)" for it
    by (cases "parentID it") (auto simp: childOf_def)
  then show ?thesis by (simp add: itemsToRemove_def removalSet_def)
qed

lemma deleteSpaceBody_resolved:
  assumes "findSpace (primarySpaces d) n = Some (i, sp)" and "space_id sp \<noteq> []"
  shows "\<exists>d'. deleteSpaceBody n d = Inr (Success ((), d')) \<and>
     primaryItems d' =
       filter (\<lambda>x. slotKey item_id x \<notin> set (itemsToRemove (structuralIds sp) (primaryItems d)))
         (primaryItems d) \<and>
     primarySpaces d' = filter (\<lambda>x. slotKey space_id x \<noteq> space_id sp) (primarySpaces d)"
proof -
  from assms(1) obtain c where c: "primary d = Some c"
    using primary_if_spaces findSpace_nonempty by blast
  let ?sps = "filter (\<lambda>x. slotKey space_id x \<noteq> space_id sp) (primarySpaces d)"
  from assignSpaces_Inr [OF c, of ?sps]
  obtain d1 where d1: "assignSpaces ?sps d = Inr d1" "primarySpaces d1 = ?sps"
    "primaryItems d1 = primaryItems d" "primary d1 \<noteq> None" by blast
  from d1(4) obtain c1 where c1: "primary d1 = Some c1" by blast
  let ?gone = "itemsToRemove (structuralIds sp) (primaryItems d)"
  let ?its = "filter (\<lambda>x. slotKey item_id x \<notin> set ?gone) (primaryItems d)"
  from assignItems_Inr [OF c1, of ?its]
  obtain d2 where d2: "assignItems ?its d1 = Inr d2" "primaryItems d2 = ?its"
    "primarySpaces d2 = primarySpaces d1" by blast
  from assms d1 d2 show ?thesis by (simp add: deleteSpaceBody_def Let_def)
qed

text \<open>
  C1 (as amended). When the name or id resolves to a space, on a loaded document and
  with the backup and the write going through, \<open>deleteSpace\<close> succeeds and the primary item
  list it saves is the old one without the slots, tokens and records alike, whose id is
  in the removal set: the structural container ids of the space, however many, and
  the ids of the items whose parent id is a non-empty string among them. Every other slot
  stays, in order; in particular an item whose id is not in the removal set because it
  sits two or more levels below a container is still in storage afterwards.
\<close>

theorem deleteSpace_removal_set:
  assumes "sidebarFile w = Some d" and "copyOk e" and "writeOutcome e = Completes"
    and "findSpace (primarySpaces d) n = Some (i, sp)" and "space_id sp \<noteq> []"
  shows "fst (deleteSpace n e w) = Inr (Success ()) \<and>
     (\<exists>d'. sidebarFile (snd (deleteSpace n e w)) = Some d' \<and>
        primaryItems d' =
          filter (\<lambda>x. slotKey item_id x \<notin> removalSet sp (primaryItems d)) (primaryItems d) \<and>
        (\<forall>t\<in>set (records (primaryItems d)).
           item_id t \<notin> removalSet sp (primaryItems d) \<longrightarrow> Obj t \<in> set (primaryItems d')))"
proof -
  from deleteSpaceBody_resolved [OF assms(4,5)] obtain d' where
    body: "deleteSpaceBody n d = Inr (Success ((), d'))" and
    its: "primaryItems d' =
       filter (\<lambda>x. slotKey item_id x \<notin> set (itemsToRemove (structuralIds sp) (primaryItems d)))
         (primaryItems d)" by blast
  have rec: "t \<in> set (records xs) \<Longrightarrow> Obj t \<in> set xs" for t :: ItemObject and xs
    by (induction xs rule: records.induct) auto
  have res: "deleteSpace n e w = (Inr (Success ()), written d' (backedUp e d w))"
    by (simp add: deleteSpace_def frame_loaded [OF assms(1,2,3)] body)
  have kept: "\<forall>t\<in>set (records (primaryItems d)).
      item_id t \<notin> removalSet sp (primaryItems d) \<longrightarrow> Obj t \<in> set (primaryItems d')"
    using rec by (auto simp: its itemsToRemove_set)
  show ?thesis
    using kept by (simp add: res written_def its itemsToRemove_set)
qed

theorem deleteSpace_removal_set_witness:
  "fst (deleteSpace ''S1'' exEnv exWorld) = Inr (Success ()) \<and>
   removalSet exWork exItems = {''P1'', ''U1'', ''F1'', ''T1''} \<and>
   (\<exists>d'. sidebarFile (snd (deleteSpace ''S1'' exEnv exWorld)) = Some d' \<and>
      primaryItems d' =
        [Str ''T2'', Obj (exItem ''T2'' None (Some ''F1'') [] (exTabData ''https://b.example'' ''B'')),
         Str ''P2'', Obj (exItem ''P2'' None None [] (exContainerData ''S2''))])"
proof -
  have f1: "findSpace (primarySpaces exDoc) ''S1'' = Some (1, exWork)"
    by (simp add: ex_spaces ex_find_S1)
  have i1: "space_id exWork \<noteq> []" by (simp add: ex_id_S1)
  have rs: "removalSet exWork exItems = {''P1'', ''U1'', ''F1'', ''T1''}"
    by (auto simp: removalSet_def ex_ids_S1 exItems_def exItem_def)
  from deleteSpace_removal_set [OF ex_file ex_copy ex_write f1 i1]
  show ?thesis
    by (auto simp: ex_items rs) (simp add: exItems_def exItem_def)
qed

text \<open>
  In the sample space with an empty structural container id, the tab whose parent id is
  the empty string is parented on one of the container ids, so its id is in the
  removal set as specified; \<open>deleteSpace\<close> leaves it in the primary item list.
\<close>

theorem deleteSpace_empty_parent_counterexample:
  "findSpace (primarySpaces exOddDoc) ''S5'' = Some (1, exOdd) \<and>
   structuralIds exOdd = [[], ''U5''] \<and>
   parentID exStray = Some [] \<and>
   item_id exStray \<in> claimedRemovalSet exOdd (primaryItems exOddDoc) \<and>
   fst (deleteSpace ''S5'' exEnv exOddWorld) = Inr (Success ()) \<and>
   map_option primaryItems (sidebarFile (snd (deleteSpace ''S5'' exEnv exOddWorld))) =
     Some [Str ''X1'', Obj exStray]"
proof -
  have its: "primaryItems exOddDoc =
      [Str ''U5'', Obj (exItem ''U5'' None None [] (exContainerData ''S5'')), Str ''X1'', Obj exStray]"
    by (simp add: primaryItems_def primary_def exOddDoc_def)
  have sps: "primarySpaces exOddDoc = [Str ''S5'', Obj exOdd]"
    by (simp add: primarySpaces_def primary_def exOddDoc_def)
  have ids: "structuralIds exOdd = [[], ''U5'']"
    by (simp add: structuralIds_def exOdd_def exSpace_def)
  have found: "findSpace (primarySpaces exOddDoc) ''S5'' = Some (1, exOdd)"
    by (simp add: sps findSpace_def exOdd_def exSpace_def)
  have par: "parentID exStray = Some []" by (simp add: exStray_def exItem_def)
  have claimed: "item_id exStray \<in> claimedRemovalSet exOdd (primaryItems exOddDoc)"
    by (simp add: claimedRemovalSet_def its ids par)
  have ok: "fst (deleteSpace ''S5'' exEnv exOddWorld) = Inr (Success ())" by code_simp
  have left: "map_option primaryItems (sidebarFile (snd (deleteSpace ''S5'' exEnv exOddWorld))) =
     Some [Str ''X1'', Obj exStray]"
    by code_simp
  from found ids par claimed ok left show ?thesis by simp
qed

section \<open>What deleteTab does to the primary item list\<close>









section \<open>The ids of a listing are ids of item records\<close>



lemma enterItem_simps [simp]:
  "enterItem m (Str s) = m"
  "enterItem m (Obj it) = m(item_id it \<mapsto> it)"
  by (simp_all add: enterItem_def)


















section \<open>deleteTab and the listings\<close>











section \<open>deleteTab on any item\<close>




section \<open>The tree builder\<close>

lemma collect_defined: "collect rs = Some ns \<Longrightarrow> r \<in> set rs \<Longrightarrow> r \<noteq> None"
  by (induction rs arbitrary: ns rule: collect.induct) (auto split: option.splits)

lemma collect_all:
  "\<forall>r\<in>set rs. r \<noteq> None \<Longrightarrow>
   collect rs = Some (concat (map (\<lambda>r. case r of Some (Some t) \<Rightarrow> [t] | _ \<Rightarrow> []) rs))"
  by (induction rs rule: collect.induct) (auto split: option.splits)

lemma collect_skip:
  "\<forall>c\<in>set cs. \<not> P c \<longrightarrow> f c = Some None \<Longrightarrow>
   collect (map f (filter P cs)) = collect (map f cs)"
proof (induction cs)
  case Nil
  then show ?case by simp
next
  case (Cons c cs)
  then have ih: "collect (map f (filter P cs)) = collect (map f cs)" by simp
  show ?case
  proof (cases "P c")
    case True
    with ih show ?thesis by (cases "f c") simp_all
  next
    case False
    with Cons.prems have "f c = Some None" by simp
    with False ih show ?thesis by (simp split: option.splits)
  qed
qed

lemma buildTree_mono: "buildTree k m i = Some r \<Longrightarrow> buildTree (k + j) m i = Some r"
proof (induction k arbitrary: i r)
  case 0
  then show ?case by simp
next
  case (Suc k)
  show ?case
  proof (cases "m i")
    case None
    with Suc.prems show ?thesis by simp
  next
    case (Some it)
    show ?thesis
    proof (cases "getItemType it")
      case FolderType
      with Suc.prems Some obtain ns where
        ns: "collect (map (buildTree k m) (children it)) = Some ns" by (auto split: option.splits)
      have "buildTree (k + j) m c = buildTree k m c" if "c \<in> set (children it)" for c
      proof -
        from collect_defined [OF ns, of "buildTree k m c"] that
        obtain rc where "buildTree k m c = Some rc" by auto
        with Suc.IH [of c rc] show ?thesis by simp
      qed
      then have eq: "map (buildTree (k + j) m) (children it) = map (buildTree k m) (children it)"
        by simp
      from Suc.prems Some FolderType show ?thesis by (simp add: eq)
    qed (use Suc.prems Some in auto)
  qed
qed

text \<open>
  C9. An item with a tab payload is a tab; failing that, an item with a container payload
  is a container; any other item is a folder, also with no children. On an id of the
  lookup, \<open>buildTree\<close> returns a leaf with id, title and url for a tab, \<^verbatim>\<open>null\<close> for a
  container, and for a folder, once the calls on its children return, a node with id,
  title and the nodes of its children in order. An id that is not in the lookup gives
  \<^verbatim>\<open>null\<close>, not an error, and a child list fares as it would without such ids. A call
  that returns within some depth of stack returns the same with any greater depth.
\<close>

theorem buildTree_classifies:
  "getItemType it = (if hasTab it then TabType else if hasContainer it then ContainerType else FolderType) \<and>
   (m i = Some it \<and> hasTab it \<longrightarrow>
      buildTree (Suc k) m i = Some (Some (TabNode (item_id it) (tabTitle it) (tabUrl it)))) \<and>
   (m i = Some it \<and> \<not> hasTab it \<and> hasContainer it \<longrightarrow> buildTree (Suc k) m i = Some None) \<and>
   (m i = Some it \<and> \<not> hasTab it \<and> \<not> hasContainer it \<and>
    (\<forall>c\<in>set (children it). buildTree k m c \<noteq> None) \<longrightarrow>
      buildTree (Suc k) m i =
        Some (Some (FolderNode (item_id it) (folderTitle it)
          (concat (map (\<lambda>c. case buildTree k m c of Some (Some t) \<Rightarrow> [t] | _ \<Rightarrow> [])
                     (children it)))))) \<and>
   (m i = None \<longrightarrow> buildTree (Suc k) m i = Some None) \<and>
   collect (map (buildTree (Suc k) m) (filter (\<lambda>c. m c \<noteq> None) cs)) =
     collect (map (buildTree (Suc k) m) cs) \<and>
   (buildTree k m i = Some r \<longrightarrow> buildTree (k + j) m i = Some r)"
proof (intro conjI impI)
  show "getItemType it =
      (if hasTab it then TabType else if hasContainer it then ContainerType else FolderType)"
    by (simp add: getItemType_def)
next
  assume "m i = Some it \<and> hasTab it"
  then show "buildTree (Suc k) m i = Some (Some (TabNode (item_id it) (tabTitle it) (tabUrl it)))"
    by (simp add: getItemType_def)
next
  assume "m i = Some it \<and> \<not> hasTab it \<and> hasContainer it"
  then show "buildTree (Suc k) m i = Some None" by (simp add: getItemType_def)
next
  assume h: "m i = Some it \<and> \<not> hasTab it \<and> \<not> hasContainer it \<and>
    (\<forall>c\<in>set (children it). buildTree k m c \<noteq> None)"
  then have "\<forall>r\<in>set (map (buildTree k m) (children it)). r \<noteq> None" by simp
  from collect_all [OF this] h show "buildTree (Suc k) m i =
        Some (Some (FolderNode (item_id it) (folderTitle it)
          (concat (map (\<lambda>c. case buildTree k m c of Some (Some t) \<Rightarrow> [t] | _ \<Rightarrow> [])
                     (children it)))))"
    by (simp add: getItemType_def comp_def)
next
  assume "m i = None"
  then show "buildTree (Suc k) m i = Some None" by simp
next
  show "collect (map (buildTree (Suc k) m) (filter (\<lambda>c. m c \<noteq> None) cs)) =
     collect (map (buildTree (Suc k) m) cs)"
    by (rule collect_skip) simp
next
  assume "buildTree k m i = Some r"
  then show "buildTree (k + j) m i = Some r" by (rule buildTree_mono)
qed


theorem buildTree_classifies_witness:
  "getItemType (exItem ''F1'' (Some ''Docs'') (Some ''P1'') [''T2''] None) = FolderType \<and>
   buildTree 2 (itemMap exItems) ''F1'' =
     Some (Some (FolderNode ''F1'' ''Docs'' [TabNode ''T2'' ''B'' ''https://b.example''])) \<and>
   buildTree 1 (itemMap exItems) ''T2'' = Some (Some (TabNode ''T2'' ''B'' ''https://b.example'')) \<and>
   buildTree 1 (itemMap exItems) ''P1'' = Some None \<and>
   buildTree 1 (itemMap exItems) ''missing'' = Some None \<and>
   collect (map (buildTree 1 (itemMap exItems)) [''T2'', ''missing'']) =
     Some [TabNode ''T2'' ''B'' ''https://b.example'']"
proof -
  let ?F = "exItem ''F1'' (Some ''Docs'') (Some ''P1'') [''T2''] None"
  let ?T = "exItem ''T2'' None (Some ''F1'') [] (exTabData ''https://b.example'' ''B'')"
  have f: "itemMap exItems ''F1'' = Some ?F" by code_simp
  have t: "itemMap exItems ''T2'' = Some ?T" by code_simp
  have p: "itemMap exItems ''P1'' = Some (exItem ''P1'' None None [''F1''] (exContainerData ''S1''))"
    by code_simp
  have n: "itemMap exItems ''missing'' = None" by code_simp
  have ft: "\<not> hasTab ?F \<and> \<not> hasContainer ?F \<and> children ?F = [''T2''] \<and> item_id ?F = ''F1'' \<and>
      folderTitle ?F = ''Docs''"
    by (simp add: hasTab_def hasContainer_def children_def folderTitle_def orElse_def exItem_def)
  have tt: "hasTab ?T \<and> item_id ?T = ''T2'' \<and> tabTitle ?T = ''B'' \<and> tabUrl ?T = ''https://b.example''"
    by (simp add: hasTab_def tabTitle_def tabUrl_def tabField_def orElse_def exItem_def exTabData_def)
  have pt: "\<not> hasTab (exItem ''P1'' None None [''F1''] (exContainerData ''S1'')) \<and>
      hasContainer (exItem ''P1'' None None [''F1''] (exContainerData ''S1''))"
    by (simp add: hasTab_def hasContainer_def exItem_def exContainerData_def)
  from buildTree_classifies [of ?T "itemMap exItems" "''T2''" 0] t tt
  have leaf: "buildTree 1 (itemMap exItems) ''T2'' = Some (Some (TabNode ''T2'' ''B'' ''https://b.example''))"
    by simp
  from buildTree_classifies [of ?F "itemMap exItems" "''F1''" 1] f ft leaf
  have folder: "getItemType ?F = FolderType \<and>
      buildTree 2 (itemMap exItems) ''F1'' =
        Some (Some (FolderNode ''F1'' ''Docs'' [TabNode ''T2'' ''B'' ''https://b.example'']))"
    by (simp add: numeral_2_eq_2)
  from buildTree_classifies [of _ "itemMap exItems" "''P1''" 0] p pt
  have cont: "buildTree 1 (itemMap exItems) ''P1'' = Some None" by simp
  from buildTree_classifies [of _ "itemMap exItems" "''missing''" 0 "[''T2'', ''missing'']"] n t leaf
  have skip: "buildTree 1 (itemMap exItems) ''missing'' = Some None \<and>
      collect (map (buildTree 1 (itemMap exItems)) [''T2'', ''missing'']) =
        Some [TabNode ''T2'' ''B'' ''https://b.example'']"
    by simp
  from leaf folder cont skip show ?thesis by simp
qed

section \<open>A new tab in the nested listing\<close>

lemma getItemType_data:
  "item_data a = item_data b \<Longrightarrow> getItemType a = getItemType b"
  by (simp add: getItemType_def hasTab_def hasContainer_def)

lemma collect_total: "\<forall>r\<in>set rs. r \<noteq> None \<Longrightarrow> \<exists>ns. collect rs = Some ns"
  using collect_all by blast

lemma grown_defined:
  assumes tab: "m' tid = Some tabObj" "hasTab tabObj"
    and cont: "m cid = Some cont" "m' cid = Some cont'" "item_data cont' = item_data cont"
      "children cont' = children cont @ [tid]"
    and rest: "\<forall>j. j \<noteq> tid \<and> j \<noteq> cid \<longrightarrow> m' j = m j"
  shows "buildTree k m x = Some r \<Longrightarrow> \<exists>r'. buildTree (Suc k) m' x = Some r'"
proof (induction k arbitrary: x r)
  case 0
  then show ?case by simp
next
  case (Suc k)
  have leaf: "\<exists>r'. buildTree (Suc k) m' tid = Some r'"
    using tab by (simp add: getItemType_def)
  have kids: "\<exists>ns. collect (map (buildTree (Suc k) m') cs) = Some ns"
    if "collect (map (buildTree k m) cs) = Some ns0" for cs ns0
  proof (rule collect_total, rule ballI)
    fix rr assume "rr \<in> set (map (buildTree (Suc k) m') cs)"
    then obtain c where c: "c \<in> set cs" and rr: "rr = buildTree (Suc k) m' c" by auto
    from collect_defined [OF that, of "buildTree k m c"] c
    obtain rc where "buildTree k m c = Some rc" by auto
    from Suc.IH [OF this] rr show "rr \<noteq> None" by auto
  qed
  show ?case
  proof (cases "x = tid")
    case True
    with tab show ?thesis by (simp add: getItemType_def)
  next
    case notTab: False
    show ?thesis
    proof (cases "x = cid")
      case True
      show ?thesis
      proof (cases "getItemType cont")
        case FolderType
        with Suc.prems True cont(1) obtain ns0 where
          "collect (map (buildTree k m) (children cont)) = Some ns0"
          by (auto split: option.splits)
        from kids [OF this] obtain ns where
          ns: "collect (map (buildTree (Suc k) m') (children cont)) = Some ns" by blast
        from leaf obtain rl where rl: "buildTree (Suc k) m' tid = Some rl" by blast
        have "\<forall>r\<in>set (map (buildTree (Suc k) m') (children cont @ [tid])). r \<noteq> None"
          using collect_defined [OF ns] rl by auto
        from collect_total [OF this] obtain ns' where
          "collect (map (buildTree (Suc k) m') (children cont @ [tid])) = Some ns'" by blast
        with True cont FolderType getItemType_data [OF cont(3)] show ?thesis by simp
      qed (use True cont getItemType_data [OF cont(3)] in auto)
    next
      case False
      with notTab rest have same: "m' x = m x" by simp
      show ?thesis
      proof (cases "m x")
        case None
        with same show ?thesis by simp
      next
        case (Some it)
        show ?thesis
        proof (cases "getItemType it")
          case FolderType
          with Suc.prems Some obtain ns0 where
            "collect (map (buildTree k m) (children it)) = Some ns0"
            by (auto split: option.splits)
          from kids [OF this] obtain ns where
            "collect (map (buildTree (Suc k) m') (children it)) = Some ns" by blast
          with same Some FolderType show ?thesis by simp
        qed (use same Some in auto)
      qed
    qed
  qed
qed


lemma grown_bucket:
  assumes tab: "m' tid = Some tabObj" "hasTab tabObj" "children tabObj = []"
    and cont: "m cid = Some cont" "m' cid = Some cont'" "item_data cont' = item_data cont"
      "children cont' = children cont @ [tid]"
    and rest: "\<forall>j. j \<noteq> tid \<and> j \<noteq> cid \<longrightarrow> m' j = m j"
    and before: "bucket k m c = Some ns"
  shows "\<exists>ns'. bucket (Suc k) m' c = Some ns'"
proof (cases c)
  case None
  then show ?thesis by (simp add: bucket_def)
next
  case (Some x)
  note grown = grown_defined [OF tab(1,2) cont rest]
  have kids: "\<exists>ns'. collect (map (buildTree (Suc k) m') cs) = Some ns'"
    if "collect (map (buildTree k m) cs) = Some ns0" for cs ns0
  proof (rule collect_total, rule ballI)
    fix rr assume "rr \<in> set (map (buildTree (Suc k) m') cs)"
    then obtain c' where c': "c' \<in> set cs" and rr: "rr = buildTree (Suc k) m' c'" by auto
    from collect_defined [OF that, of "buildTree k m c'"] c'
    obtain rc where "buildTree k m c' = Some rc" by auto
    from grown [OF this] rr show "rr \<noteq> None" by auto
  qed
  show ?thesis
  proof (cases "x = tid")
    case True
    with Some tab show ?thesis by (simp add: bucket_def)
  next
    case notTab: False
    show ?thesis
    proof (cases "x = cid")
      case True
      with before Some cont(1) have "collect (map (buildTree k m) (children cont)) = Some ns"
        by (simp add: bucket_def)
      from kids [OF this] obtain ns1 where
        ns1: "collect (map (buildTree (Suc k) m') (children cont)) = Some ns1" by blast
      have "buildTree (Suc k) m' tid \<noteq> None" using tab by (simp add: getItemType_def)
      with collect_defined [OF ns1]
      have "\<forall>r\<in>set (map (buildTree (Suc k) m') (children cont @ [tid])). r \<noteq> None" by auto
      from collect_total [OF this] True Some cont show ?thesis by (simp add: bucket_def)
    next
      case False
      with notTab rest have same: "m' x = m x" by simp
      show ?thesis
      proof (cases "m x")
        case None
        with same Some show ?thesis by (simp add: bucket_def)
      next
        case (Some co)
        with before \<open>c = Some x\<close> have "collect (map (buildTree k m) (children co)) = Some ns"
          by (simp add: bucket_def)
        from kids [OF this] same Some \<open>c = Some x\<close> show ?thesis by (simp add: bucket_def)
      qed
    qed
  qed
qed

lemma grown_target:
  assumes tab: "m' tid = Some tabObj" "hasTab tabObj"
    and cont: "m' cid = Some cont'" "children cont' = cs @ [tid]"
    and after: "bucket (Suc k) m' (Some cid) = Some ns'"
  shows "\<exists>ns. ns' = ns @ [TabNode (item_id tabObj) (tabTitle tabObj) (tabUrl tabObj)]"
proof -
  let ?f = "buildTree (Suc k) m'"
  let ?g = "\<lambda>r. case r of Some (Some t) \<Rightarrow> [t] | _ \<Rightarrow> []"
  from after cont have c: "collect (map ?f (cs @ [tid])) = Some ns'" by (simp add: bucket_def)
  from collect_defined [OF c] have "\<forall>r\<in>set (map ?f (cs @ [tid])). r \<noteq> None" by blast
  from collect_all [OF this] c have "ns' = concat (map ?g (map ?f (cs @ [tid])))" by simp
  moreover have "?f tid = Some (Some (TabNode (item_id tabObj) (tabTitle tabObj) (tabUrl tabObj)))"
    using tab by (simp add: getItemType_def)
  ultimately show ?thesis by simp
qed


lemma records_append: "records (xs @ ys) = records xs @ records ys"
  by (induction xs rule: records.induct) auto

lemma appendChild_append:
  "findItem c xs = Some cont \<Longrightarrow> appendChild c t (xs @ ys) = appendChild c t xs @ ys"
  by (induction c t xs rule: appendChild.induct) (auto split: if_splits)

lemma addTabBody_items:
  assumes "findSpace (primarySpaces d) n = Some (i, sp)" and "space_id sp \<noteq> []"
    and "elementAt (structuralIds sp) (if pin then 0 else 1) = Some cid" and "cid \<noteq> []"
  shows "\<exists>d'. addTabBody n url title pin e d = Inr (Success (uuid1 e, d')) \<and>
     primaryItems d' =
       appendChild cid (uuid1 e)
         (primaryItems d @
            [Str (uuid1 e), Obj (newTab (uuid1 e) cid url title (ts e) (getDeviceId d))]) \<and>
     primarySpaces d' = primarySpaces d"
proof -
  from assms(1) obtain c where c: "primary d = Some c"
    using primary_if_spaces findSpace_nonempty by blast
  let ?its = "appendChild cid (uuid1 e)
     (primaryItems d @ [Str (uuid1 e), Obj (newTab (uuid1 e) cid url title (ts e) (getDeviceId d))])"
  from assignItems_Inr [OF c, of ?its] obtain d1 where
    "assignItems ?its d = Inr d1" "primaryItems d1 = ?its" "primarySpaces d1 = primarySpaces d"
    by blast
  with assms show ?thesis by (auto simp: addTabBody_def Let_def)
qed

lemma addTab_success:
  assumes "sidebarFile w = Some d" and "fst (addTab n url title pin e w) = Inr (Success tid)"
    and "findSpace (primarySpaces d) n = Some (i, sp)"
  shows "copyOk e \<and> writeOutcome e = Completes \<and> space_id sp \<noteq> [] \<and> tid = uuid1 e \<and>
     (\<exists>cid. elementAt (structuralIds sp) (if pin then 0 else 1) = Some cid \<and> cid \<noteq> [])"
proof -
  from frame_success [OF assms(1), of "addTabBody n url title pin e" e tid] assms(2)
  obtain d0 where copy: "copyOk e" and fin: "writeOutcome e = Completes" and
    done_body: "addTabBody n url title pin e d = Inr (Success (tid, d0))"
    by (auto simp: addTab_def)
  have ident: "space_id sp \<noteq> []"
  proof
    assume "space_id sp = []"
    with assms(3) have "addTabBody n url title pin e d = Inr (Failure (SpaceNotFound n))"
      by (simp add: addTabBody_def)
    with done_body show False by simp
  qed
  from addTabBody_resolved [OF assms(3) ident, of url title pin e] obtain d' where
    body: "addTabBody n url title pin e d =
     (case elementAt (structuralIds sp) (if pin then 0 else 1) of
        None \<Rightarrow> Inr (Failure (ContainerMissing (space_id sp)))
      | Some cid \<Rightarrow>
          if cid = [] then Inr (Failure (ContainerMissing (space_id sp)))
          else Inr (Success (uuid1 e, d')))" by blast
  from done_body have "tid = uuid1 e \<and>
     (\<exists>cid. elementAt (structuralIds sp) (if pin then 0 else 1) = Some cid \<and> cid \<noteq> [])"
    unfolding body by (auto split: option.splits if_splits)
  with copy fin ident show ?thesis by simp
qed

lemma newTab_shown:
  "url \<noteq> [] \<Longrightarrow>
   hasTab (newTab tid cid url title t dv) \<and> children (newTab tid cid url title t dv) = [] \<and>
   item_id (newTab tid cid url title t dv) = tid \<and>
   tabTitle (newTab tid cid url title t dv) = orElse title url \<and>
   tabUrl (newTab tid cid url title t dv) = url"
  by (auto simp: newTab_def hasTab_def children_def tabTitle_def tabUrl_def tabField_def orElse_def
        split: option.splits)

text \<open>The lookup holds, under each id, the last record that carries it.\<close>

lemma itemMap_fold_last:
  "foldl enterItem m0 its j =
     (if filter (\<lambda>r. item_id r = j) (records its) = [] then m0 j
      else Some (last (filter (\<lambda>r. item_id r = j) (records its))))"
proof (induction its arbitrary: m0)
  case Nil
  then show ?case by simp
next
  case (Cons x xs)
  show ?case
  proof (cases x)
    case (Str s)
    with Cons show ?thesis by simp
  next
    case (Obj it)
    have "foldl enterItem (m0(item_id it \<mapsto> it)) xs j =
       (if filter (\<lambda>r. item_id r = j) (records xs) = [] then (m0(item_id it \<mapsto> it)) j
        else Some (last (filter (\<lambda>r. item_id r = j) (records xs))))"
      by (rule Cons.IH)
    with Obj show ?thesis by simp
  qed
qed

lemma itemMap_last:
  "itemMap its j =
     (if filter (\<lambda>r. item_id r = j) (records its) = [] then None
      else Some (last (filter (\<lambda>r. item_id r = j) (records its))))"
  using itemMap_fold_last [of Map.empty its j] by (simp add: itemMap_def)

lemma findItem_filter:
  "findItem j xs = (case filter (\<lambda>r. item_id r = j) (records xs) of [] \<Rightarrow> None | r # rs \<Rightarrow> Some r)"
  by (induction j xs rule: findItem.induct) auto

lemma appendChild_filter:
  "filter (\<lambda>r. item_id r = j) (records (appendChild c t xs)) =
     (if j = c
      then (case filter (\<lambda>r. item_id r = c) (records xs) of
              [] \<Rightarrow> []
            | r # rs \<Rightarrow> r\<lparr>childrenIds := Some (children r @ [t])\<rparr> # rs)
      else filter (\<lambda>r. item_id r = j) (records xs))"
  by (induction c t xs rule: appendChild.induct) (auto simp: children_def)


text \<open>
  C2 (as amended). Let \<open>addTab\<close> succeed on a loaded document, for a space whose selected
  structural container (the first if pinned, the second if not) is carried by exactly one
  record of the primary item list, with a new id other than that of the container and
  with a non-empty url. If the nested listing of that space returned before the call,
  with some depth of stack, then after the call it returns with one more level of
  depth, and the last direct child of the requested bucket (pinned or unpinned) is the
  tab with the new id, the given url, and as title the given title when it is given and
  not empty, and the url otherwise.
\<close>

theorem addTab_then_listed:
  assumes loaded: "sidebarFile w = Some d"
    and ok: "fst (addTab n url title pin e w) = Inr (Success tid)"
    and space: "findSpace (primarySpaces d) n = Some (i, sp)"
    and target: "findTarget sel (primarySpaces d) = Some sp"
    and chosen: "elementAt (structuralIds sp) (if pin then 0 else 1) = Some cid"
    and stored: "filter (\<lambda>r. item_id r = cid) (records (primaryItems d)) = [cont]"
    and differ: "tid \<noteq> cid"
    and url: "url \<noteq> []"
    and before: "listTabs k sel w = Inr (Some r0)"
  shows "\<exists>r. listTabs (Suc k) sel (snd (addTab n url title pin e w)) = Inr (Some r) \<and>
           (\<exists>ns. (if pin then pinned r else unpinned r) = ns @ [TabNode tid (orElse title url) url])"
proof -
  from addTab_success [OF loaded ok space] chosen
  have copy: "copyOk e" and fin: "writeOutcome e = Completes" and ident: "space_id sp \<noteq> []"
    and tid: "tid = uuid1 e" and cid: "cid \<noteq> []"
    by auto
  let ?tab = "newTab tid cid url title (ts e) (getDeviceId d)"
  let ?its = "primaryItems d"
  from addTabBody_items [OF space ident chosen cid, of url title e] obtain d' where
    body: "addTabBody n url title pin e d = Inr (Success (tid, d'))" and
    its': "primaryItems d' = appendChild cid tid (?its @ [Str tid, Obj ?tab])" and
    sps': "primarySpaces d' = primarySpaces d"
    unfolding tid by blast
  have saved: "sidebarFile (snd (addTab n url title pin e w)) = Some d'"
    by (simp add: addTab_def frame_loaded [OF loaded copy fin] body written_def)
  from stored have first: "findItem cid ?its = Some cont" by (simp add: findItem_filter)
  have split: "primaryItems d' = appendChild cid tid ?its @ [Str tid, Obj ?tab]"
    unfolding its' by (rule appendChild_append [OF first])
  let ?m = "itemMap ?its" and ?m' = "itemMap (primaryItems d')"
  let ?cont' = "cont\<lparr>childrenIds := Some (children cont @ [tid])\<rparr>"
  have id_tab: "item_id ?tab = tid" by (simp add: newTab_def)
  have carried: "filter (\<lambda>r. item_id r = j) (records (primaryItems d')) =
      (if j = cid then [?cont'] else filter (\<lambda>r. item_id r = j) (records ?its)) @
      (if j = tid then [?tab] else [])" for j
    using stored by (simp add: split records_append appendChild_filter id_tab)
  have tab: "?m' tid = Some ?tab"
    by (simp add: itemMap_last carried)
  have cont: "?m cid = Some cont" "?m' cid = Some ?cont'"
    using stored differ by (simp_all add: itemMap_last carried)
  have rest: "\<forall>j. j \<noteq> tid \<and> j \<noteq> cid \<longrightarrow> ?m' j = ?m j"
    by (simp add: itemMap_last carried)
  from newTab_shown [OF url, of tid cid title "ts e" "getDeviceId d"]
  have shown: "hasTab ?tab" "children ?tab = []" "item_id ?tab = tid"
    "tabTitle ?tab = orElse title url" "tabUrl ?tab = url" by simp_all
  have kids: "item_data ?cont' = item_data cont" "children ?cont' = children cont @ [tid]"
    by (simp_all add: children_def)
  from before loaded target obtain p0 u0 where
    p0: "bucket k ?m (elementAt (structuralIds sp) 0) = Some p0" and
    u0: "bucket k ?m (elementAt (structuralIds sp) 1) = Some u0"
    by (auto simp: listTabs_def loadSidebar_def Let_def split: option.splits)
  from grown_bucket [OF tab shown(1,2) cont kids rest p0] obtain p1 where
    p1: "bucket (Suc k) ?m' (elementAt (structuralIds sp) 0) = Some p1" by blast
  from grown_bucket [OF tab shown(1,2) cont kids rest u0] obtain u1 where
    u1: "bucket (Suc k) ?m' (elementAt (structuralIds sp) 1) = Some u1" by blast
  have listed: "listTabs (Suc k) sel (snd (addTab n url title pin e w)) =
      Inr (Some \<lparr>spaceId = space_id sp, spaceTitle = space_title sp, pinned = p1, unpinned = u1\<rparr>)"
    using saved target p1 u1 by (simp add: listTabs_def loadSidebar_def Let_def sps')
  have "\<exists>ns. (if pin then p1 else u1) = ns @ [TabNode tid (orElse title url) url]"
  proof (cases pin)
    case True
    with chosen p1 have "bucket (Suc k) ?m' (Some cid) = Some p1" by simp
    from grown_target [OF tab shown(1) cont(2) kids(2) this] True shown show ?thesis by simp
  next
    case False
    with chosen u1 have "bucket (Suc k) ?m' (Some cid) = Some u1" by simp
    from grown_target [OF tab shown(1) cont(2) kids(2) this] False shown show ?thesis by simp
  qed
  with listed show ?thesis by auto
qed

theorem addTab_then_listed_witness:
  "fst (addTab ''S1'' ''https://c.example'' None True exEnv exWorld) = Inr (Success ''N1'') \<and>
   listTabs 3 (Some ''S1'') exWorld =
     Inr (Some \<lparr>spaceId = ''S1'', spaceTitle = ''Work'',
                pinned = [FolderNode ''F1'' ''Docs'' [TabNode ''T2'' ''B'' ''https://b.example'']],
                unpinned = [TabNode ''T1'' ''A'' ''https://a.example'']\<rparr>) \<and>
   (\<exists>r ns. listTabs 4 (Some ''S1'') (snd (addTab ''S1'' ''https://c.example'' None True exEnv exWorld)) =
        Inr (Some r) \<and>
      pinned r = ns @ [TabNode ''N1'' ''https://c.example'' ''https://c.example''])"
proof -
  have ok: "fst (addTab ''S1'' ''https://c.example'' None True exEnv exWorld) = Inr (Success ''N1'')"
    by code_simp
  have space: "findSpace (primarySpaces exDoc) ''S1'' = Some (1, exWork)"
    by (simp add: ex_spaces ex_find_S1)
  have target: "findTarget (Some ''S1'') (primarySpaces exDoc) = Some exWork"
    by (simp add: ex_spaces exSpaces_def ex_id_S1 truthy_def)
  have chosen: "elementAt (structuralIds exWork) (if True then 0 else 1) = Some ''P1''"
    by (simp add: ex_ids_S1 elementAt_def)
  have stored: "filter (\<lambda>r. item_id r = ''P1'') (records (primaryItems exDoc)) =
      [exItem ''P1'' None None [''F1''] (exContainerData ''S1'')]"
    by (simp add: ex_items exItems_def exItem_def)
  have differ: "''N1'' \<noteq> ''P1''" by simp
  have url: "''https://c.example'' \<noteq> []" by simp
  have before: "listTabs 3 (Some ''S1'') exWorld =
     Inr (Some \<lparr>spaceId = ''S1'', spaceTitle = ''Work'',
                pinned = [FolderNode ''F1'' ''Docs'' [TabNode ''T2'' ''B'' ''https://b.example'']],
                unpinned = [TabNode ''T1'' ''A'' ''https://a.example'']\<rparr>)"
    by code_simp
  from addTab_then_listed [OF ex_file ok space target chosen stored differ url before]
  have "\<exists>r ns. listTabs 4 (Some ''S1'') (snd (addTab ''S1'' ''https://c.example'' None True exEnv exWorld)) =
        Inr (Some r) \<and>
      pinned r = ns @ [TabNode ''N1'' ''https://c.example'' ''https://c.example'']"
    by (auto simp: orElse_def eval_nat_numeral)
  with ok before show ?thesis by simp
qed

text \<open>
  Three calls of \<open>addTab\<close> that succeed and are not followed by the listing of the
  specification. With an empty url and no title, the new tab is listed under the title
  \<^verbatim>\<open>Untitled\<close>, not under the url. In a space made by \<open>createSpace\<close> whose pinned container has
  since been removed by \<open>deleteTab\<close>, a pinned tab is added and the pinned bucket of the
  listing stays empty. In the sample space whose pinned container has two records, the
  first record receives the child and the listing reads the second.
\<close>

theorem addTab_not_listed_counterexample:
  "fst (addTab ''S1'' [] None True exEnv exWorld) = Inr (Success ''N1'') \<and>
   listTabs 4 (Some ''S1'') (snd (addTab ''S1'' [] None True exEnv exWorld)) =
     Inr (Some \<lparr>spaceId = ''S1'', spaceTitle = ''Work'',
                pinned = [FolderNode ''F1'' ''Docs'' [TabNode ''T2'' ''B'' ''https://b.example''],
                          TabNode ''N1'' ''Untitled'' []],
                unpinned = [TabNode ''T1'' ''A'' ''https://a.example'']\<rparr>) \<and>
   fst (createSpace ''Personal'' ''house'' exEnv exWorld) = Inr (Success ''N1'') \<and>
   fst (deleteTab ''N2'' exEnv (snd (createSpace ''Personal'' ''house'' exEnv exWorld))) =
     Inr (Success ()) \<and>
   fst (addTab ''Personal'' ''https://c.example'' None True exEnv2
         (snd (deleteTab ''N2'' exEnv (snd (createSpace ''Personal'' ''house'' exEnv exWorld))))) =
     Inr (Success ''N4'') \<and>
   listTabs 4 (Some ''Personal'')
      (snd (addTab ''Personal'' ''https://c.example'' None True exEnv2
         (snd (deleteTab ''N2'' exEnv (snd (createSpace ''Personal'' ''house'' exEnv exWorld)))))) =
     Inr (Some \<lparr>spaceId = ''N1'', spaceTitle = ''Personal'', pinned = [], unpinned = []\<rparr>) \<and>
   fst (addTab ''S6'' ''https://c.example'' (Some ''C'') True exEnv exTwinWorld) = Inr (Success ''N1'') \<and>
   listTabs 4 (Some ''S6'') (snd (addTab ''S6'' ''https://c.example'' (Some ''C'') True exEnv exTwinWorld)) =
     Inr (Some \<lparr>spaceId = ''S6'', spaceTitle = ''Twin'', pinned = [], unpinned = []\<rparr>)"
proof -
  have a1: "fst (addTab ''S1'' [] None True exEnv exWorld) = Inr (Success ''N1'')" by code_simp
  have a2: "listTabs 4 (Some ''S1'') (snd (addTab ''S1'' [] None True exEnv exWorld)) =
     Inr (Some \<lparr>spaceId = ''S1'', spaceTitle = ''Work'',
                pinned = [FolderNode ''F1'' ''Docs'' [TabNode ''T2'' ''B'' ''https://b.example''],
                          TabNode ''N1'' ''Untitled'' []],
                unpinned = [TabNode ''T1'' ''A'' ''https://a.example'']\<rparr>)"
    by code_simp
  have b1: "fst (createSpace ''Personal'' ''house'' exEnv exWorld) = Inr (Success ''N1'')"
    by code_simp
  have b2: "fst (deleteTab ''N2'' exEnv (snd (createSpace ''Personal'' ''house'' exEnv exWorld))) =
     Inr (Success ())"
    by code_simp
  have b3: "fst (addTab ''Personal'' ''https://c.example'' None True exEnv2
         (snd (deleteTab ''N2'' exEnv (snd (createSpace ''Personal'' ''house'' exEnv exWorld))))) =
     Inr (Success ''N4'')"
    by code_simp
  have b4: "listTabs 4 (Some ''Personal'')
      (snd (addTab ''Personal'' ''https://c.example'' None True exEnv2
         (snd (deleteTab ''N2'' exEnv (snd (createSpace ''Personal'' ''house'' exEnv exWorld)))))) =
     Inr (Some \<lparr>spaceId = ''N1'', spaceTitle = ''Personal'', pinned = [], unpinned = []\<rparr>)"
    by code_simp
  have c1: "fst (addTab ''S6'' ''https://c.example'' (Some ''C'') True exEnv exTwinWorld) =
     Inr (Success ''N1'')"
    by code_simp
  have c2: "listTabs 4 (Some ''S6'')
      (snd (addTab ''S6'' ''https://c.example'' (Some ''C'') True exEnv exTwinWorld)) =
     Inr (Some \<lparr>spaceId = ''S6'', spaceTitle = ''Twin'', pinned = [], unpinned = []\<rparr>)"
    by code_simp
  from a1 a2 b1 b2 b3 b4 c1 c2 show ?thesis by simp
qed

end
